theory Spec2Isabelle
  imports Complex_Main "HOL-Library.Word"
begin

section \<open>Conventions of the embedding\<close>

text \<open>
  The firmware is C. Each source function becomes a HOL function of the same name over an
  explicit state record; a value the C code reads from the hardware (an ADC sample, the
  microsecond clock, an endstop level) is an argument of the model. The C types
  \<^verbatim>\<open>float\<close> and \<^verbatim>\<open>double\<close> are modelled by \<^typ>\<open>real\<close>: rounding, infinities and
  NaN are outside the model. The 32-bit scheduler clock is a \<^typ>\<open>32 word\<close>, so its
  wrap-around is the one of the source.
\<close>

section \<open>Heater: NTC conversion and PID loop (app/heater.c, app/heater.h)\<close>

subsection \<open>Constants\<close>

definition HEATER_TEMP_MIN :: real where
  "HEATER_TEMP_MIN = 0"

definition HEATER_TEMP_MAX :: real where
  "HEATER_TEMP_MAX = 300"

definition HEATER_TEMP_INVALID :: real where
  "HEATER_TEMP_INVALID = - 999"

definition HEATER_TEMP_TOLERANCE :: real where
  "HEATER_TEMP_TOLERANCE = 3"

definition ADC_MAX_VALUE :: int where
  "ADC_MAX_VALUE = 4095"

definition PID_DT :: real where
  "PID_DT = 1 / 10"

definition PID_INTEGRAL_MAX :: real where
  "PID_INTEGRAL_MAX = 100"

definition PID_TARGET_CHANGE_THRESHOLD :: real where
  "PID_TARGET_CHANGE_THRESHOLD = 10"

subsection \<open>The NTC table\<close>

text \<open>Entries are (ADC value, temperature in tenths of a degree), in the source's order.\<close>

definition s_ntc_table :: "(int \<times> int) list" where
  "s_ntc_table =
    [(23, 3000), (31, 2900), (41, 2800), (54, 2700), (71, 2600), (93, 2500),
     (120, 2400), (154, 2300), (196, 2200), (248, 2100), (311, 2000), (386, 1900),
     (475, 1800), (578, 1700), (696, 1600), (829, 1500), (976, 1400), (1136, 1300),
     (1307, 1200), (1486, 1100), (1670, 1000), (1855, 900), (2037, 800), (2213, 700),
     (2379, 600), (2534, 500), (2676, 400), (2804, 300), (2918, 200), (3018, 100),
     (3105, 0), (3180, - 100), (3244, - 200)]"

text \<open>
  The interpolation loop of \<^verbatim>\<open>ntc_adc_to_temp\<close>: the first pair of neighbouring entries
  that brackets the reading decides; running off the table gives the invalid sentinel.
\<close>

fun ntc_search :: "(int \<times> int) list \<Rightarrow> int \<Rightarrow> real" where
  "ntc_search ((adc_low, temp_low) # (adc_high, temp_high) # rest) adc_value =
     (if adc_value \<ge> adc_low \<and> adc_value \<le> adc_high then
        (let ratio = real_of_int (adc_value - adc_low) / real_of_int (adc_high - adc_low);
             temp = real_of_int temp_low + ratio * real_of_int (temp_high - temp_low)
         in temp / 10)
      else ntc_search ((adc_high, temp_high) # rest) adc_value)"
| "ntc_search _ adc_value = HEATER_TEMP_INVALID"

definition ntc_adc_to_temp :: "int \<Rightarrow> real" where
  "ntc_adc_to_temp adc_value =
     (if adc_value < 0 \<or> adc_value > ADC_MAX_VALUE then HEATER_TEMP_INVALID
      else if adc_value < fst (hd s_ntc_table) then HEATER_TEMP_MAX
      else if adc_value > fst (last s_ntc_table) then HEATER_TEMP_MIN
      else ntc_search s_ntc_table adc_value)"

subsection \<open>Heater state and configuration\<close>

datatype heater_id = HEATER_HOTEND | HEATER_BED

record pid_params =
  kp :: real
  ki :: real
  kd :: real

record heater_config =
  adc_channel :: nat
  max_power :: real
  pid :: pid_params

record heater_state =
  current_temp :: real
  target_temp :: real
  prev_error :: real
  integral :: real
  output_duty :: real
  initialized :: bool
  pwm_enabled :: bool

fun s_heater_config :: "heater_id \<Rightarrow> heater_config" where
  "s_heater_config HEATER_HOTEND =
     \<lparr>adc_channel = 0, max_power = 1,
      pid = \<lparr>kp = 222 / 10, ki = 108 / 100, kd = 114\<rparr>\<rparr>"
| "s_heater_config HEATER_BED =
     \<lparr>adc_channel = 1, max_power = 1,
      pid = \<lparr>kp = 54, ki = 1 / 2, kd = 200\<rparr>\<rparr>"

text \<open>
  The module state: the two heater states, the initialisation flag, and the PWM layer as
  far as the heater writes it (duty and enable bit of each heater channel).
\<close>

record heater_module =
  s_heater_state :: "heater_id \<Rightarrow> heater_state"
  s_module_initialized :: bool
  pwm_duty :: "heater_id \<Rightarrow> real"
  pwm_on :: "heater_id \<Rightarrow> bool"

definition heater_state_zero :: "bool \<Rightarrow> heater_state" where
  "heater_state_zero ini =
     \<lparr>current_temp = 0, target_temp = 0, prev_error = 0, integral = 0, output_duty = 0,
      initialized = ini, pwm_enabled = False\<rparr>"

subsection \<open>PID update\<close>

definition pid_update :: "heater_state \<Rightarrow> pid_params \<Rightarrow> real \<Rightarrow> real \<Rightarrow> real \<times> heater_state" where
  "pid_update state params cur dt =
     (let error = target_temp state - cur;
          i0 = integral state + error * dt;
          i1 = (if i0 > PID_INTEGRAL_MAX then PID_INTEGRAL_MAX
                else if i0 < - PID_INTEGRAL_MAX then - PID_INTEGRAL_MAX else i0);
          derivative = (error - prev_error state) / dt;
          out = kp params * error + ki params * i1 + kd params * derivative;
          st1 = state\<lparr>integral := i1, prev_error := error\<rparr>
      in if out < 0 then
           (let st2 = (if error < 0 \<and> i1 < 0 then st1\<lparr>integral := i1 - error * dt\<rparr> else st1)
            in (0, st2\<lparr>output_duty := 0\<rparr>))
         else if out > 1 then
           (let st2 = (if error > 0 \<and> i1 > 0 then st1\<lparr>integral := i1 - error * dt\<rparr> else st1)
            in (1, st2\<lparr>output_duty := 1\<rparr>))
         else (out, st1\<lparr>output_duty := out\<rparr>))"

definition heater_set_pwm :: "heater_id \<Rightarrow> real \<Rightarrow> heater_module \<Rightarrow> heater_module" where
  "heater_set_pwm hid duty m =
     (let mp = max_power (s_heater_config hid);
          duty' = (if duty > mp then mp else duty)
      in m\<lparr>pwm_duty := (pwm_duty m)(hid := duty')\<rparr>)"

subsection \<open>Public heater functions\<close>

definition heater_init :: "heater_module \<Rightarrow> heater_module" where
  "heater_init m =
     (if s_module_initialized m then m
      else m\<lparr>s_heater_state := (\<lambda>_. heater_state_zero True),
             s_module_initialized := True\<rparr>)"

definition heater_set_temp :: "heater_id \<Rightarrow> real \<Rightarrow> heater_module \<Rightarrow> heater_module" where
  "heater_set_temp hid target0 m =
     (let target = (if target0 < HEATER_TEMP_MIN then HEATER_TEMP_MIN
                    else if target0 > HEATER_TEMP_MAX then HEATER_TEMP_MAX else target0);
          st = s_heater_state m hid;
          old_target = target_temp st;
          d0 = target - old_target;
          target_diff = (if d0 < 0 then - d0 else d0);
          st1 = st\<lparr>target_temp := target\<rparr>;
          st2 = (if target_diff > PID_TARGET_CHANGE_THRESHOLD
                 then st1\<lparr>integral := 0, prev_error := 0\<rparr> else st1)
      in if target \<le> 0 then
           (let st3 = st2\<lparr>integral := 0, prev_error := 0, output_duty := 0\<rparr>;
                m1 = heater_set_pwm hid 0 (m\<lparr>s_heater_state := (s_heater_state m)(hid := st3)\<rparr>);
                m2 = m1\<lparr>pwm_on := (pwm_on m1)(hid := False)\<rparr>
            in m2\<lparr>s_heater_state := (s_heater_state m2)(hid := st3\<lparr>pwm_enabled := False\<rparr>)\<rparr>)
         else if \<not> pwm_enabled st2 then
           m\<lparr>s_heater_state := (s_heater_state m)(hid := st2\<lparr>pwm_enabled := True\<rparr>),
             pwm_on := (pwm_on m)(hid := True)\<rparr>
         else m\<lparr>s_heater_state := (s_heater_state m)(hid := st2)\<rparr>)"

text \<open>
  \<^verbatim>\<open>heater_get_temp\<close> reads the ADC; the sample the hardware returns at this call is the
  argument \<open>adc_value\<close> (\<^verbatim>\<open>adc_read\<close> returns a negative value on error). The configured
  ADC channels are 0 and 1, for which \<^verbatim>\<open>get_adc_gpio\<close> never yields the invalid pin.
\<close>

definition heater_get_temp :: "heater_id \<Rightarrow> int \<Rightarrow> heater_module \<Rightarrow> real \<times> heater_module" where
  "heater_get_temp hid adc_value m0 =
     (let m = (if \<not> s_module_initialized m0 then heater_init m0 else m0)
      in if adc_channel (s_heater_config hid) > 15 then (HEATER_TEMP_INVALID, m)
         else if adc_value < 0 then (HEATER_TEMP_INVALID, m)
         else
           (let temp = ntc_adc_to_temp adc_value
            in if temp \<noteq> HEATER_TEMP_INVALID
               then (temp, m\<lparr>s_heater_state :=
                        (s_heater_state m)(hid := (s_heater_state m hid)\<lparr>current_temp := temp\<rparr>)\<rparr>)
               else (temp, m)))"

definition heater_is_at_target :: "heater_id \<Rightarrow> int \<Rightarrow> heater_module \<Rightarrow> bool \<times> heater_module" where
  "heater_is_at_target hid adc_value m0 =
     (let (current, m) = heater_get_temp hid adc_value m0;
          target = target_temp (s_heater_state m hid)
      in if target \<le> 0 then (True, m)
         else
           (let d0 = current - target;
                diff = (if d0 < 0 then - d0 else d0)
            in (diff \<le> HEATER_TEMP_TOLERANCE, m)))"

text \<open>One heater's share of \<^verbatim>\<open>heater_task\<close> (the body of its loop over the heaters).\<close>

definition heater_task_one :: "heater_id \<Rightarrow> int \<Rightarrow> heater_module \<Rightarrow> heater_module" where
  "heater_task_one hid adc_value m0 =
     (let (cur, m) = heater_get_temp hid adc_value m0
      in if cur = HEATER_TEMP_INVALID then heater_set_pwm hid 0 m
         else if target_temp (s_heater_state m hid) \<le> 0 then
           heater_set_pwm hid 0
             (m\<lparr>s_heater_state := (s_heater_state m)(hid := (s_heater_state m hid)\<lparr>output_duty := 0\<rparr>)\<rparr>)
         else
           (let (out, st') = pid_update (s_heater_state m hid) (pid (s_heater_config hid)) cur PID_DT
            in heater_set_pwm hid out (m\<lparr>s_heater_state := (s_heater_state m)(hid := st')\<rparr>)))"

definition heater_task :: "(heater_id \<Rightarrow> int) \<Rightarrow> heater_module \<Rightarrow> heater_module" where
  "heater_task adc m =
     (if \<not> s_module_initialized m then m
      else heater_task_one HEATER_BED (adc HEATER_BED)
             (heater_task_one HEATER_HOTEND (adc HEATER_HOTEND) m))"

subsection \<open>Reachable heater states\<close>

text \<open>
  The module state at reset (C static storage is zero), and the states the public
  functions can lead to from it, whatever targets are requested and whatever the ADC
  returns.
\<close>

definition heater_boot :: heater_module where
  "heater_boot =
     \<lparr>s_heater_state = (\<lambda>_. heater_state_zero False), s_module_initialized = False,
      pwm_duty = (\<lambda>_. 0), pwm_on = (\<lambda>_. False)\<rparr>"

inductive heater_reachable :: "heater_module \<Rightarrow> bool" where
  hr_boot: "heater_reachable heater_boot"
| hr_init: "heater_reachable m \<Longrightarrow> heater_reachable (heater_init m)"
| hr_set_temp: "heater_reachable m \<Longrightarrow> heater_reachable (heater_set_temp hid target m)"
| hr_get_temp: "heater_reachable m \<Longrightarrow> heater_reachable (snd (heater_get_temp hid adc_value m))"
| hr_at_target: "heater_reachable m \<Longrightarrow> heater_reachable (snd (heater_is_at_target hid adc_value m))"
| hr_task: "heater_reachable m \<Longrightarrow> heater_reachable (heater_task adc m)"

text \<open>
  Two predicates used to state the heater's properties: a table is well formed between
  two temperature bounds when its ADC column is strictly ascending and every temperature
  lies between the bounds; and the invariant of the module state.
\<close>

fun table_ok :: "real \<Rightarrow> real \<Rightarrow> (int \<times> int) list \<Rightarrow> bool" where
  "table_ok L H [] = True"
| "table_ok L H [(a, t)] = (L \<le> real_of_int t \<and> real_of_int t \<le> H)"
| "table_ok L H ((a, t) # (a', t') # rest) =
     (a < a' \<and> L \<le> real_of_int t \<and> real_of_int t \<le> H \<and> table_ok L H ((a', t') # rest))"

definition hinv :: "heater_module \<Rightarrow> bool" where
  "hinv m = (\<forall>hid. 0 \<le> target_temp (s_heater_state m hid) \<and>
      target_temp (s_heater_state m hid) \<le> 300 \<and>
      \<bar>integral (s_heater_state m hid)\<bar> \<le> 100 \<and>
      0 \<le> output_duty (s_heater_state m hid) \<and> output_duty (s_heater_state m hid) \<le> 1)"

section \<open>Scheduler (src/sched.c, src/sched.h)\<close>

text \<open>
  \<^verbatim>\<open>sched_time_t\<close> is \<^verbatim>\<open>uint32_t\<close>. A timer is identified here by a number (its address in
  C); its callback is a function from the wake time to the next wake time, or absent
  (\<^verbatim>\<open>NULL\<close>). The linked list \<^verbatim>\<open>s_timer_list\<close> is the list of its nodes in order.
\<close>

type_synonym sched_time_t = "32 word"

record sched_timer =
  tid :: nat
  waketime :: sched_time_t
  func :: "(sched_time_t \<Rightarrow> sched_time_t) option"

definition sched_time_diff :: "sched_time_t \<Rightarrow> sched_time_t \<Rightarrow> int" where
  "sched_time_diff t1 t2 = sint (t1 - t2)"

text \<open>\<^verbatim>\<open>sched_is_before\<close>, with the clock value read by \<^verbatim>\<open>sched_get_time\<close> as \<open>now\<close>.\<close>

definition sched_is_before :: "sched_time_t \<Rightarrow> sched_time_t \<Rightarrow> bool" where
  "sched_is_before now time = (sched_time_diff time now \<le> 0)"

text \<open>The insertion walk of \<^verbatim>\<open>sched_add_timer\<close>: stop before the first later timer.\<close>

fun timer_insert :: "sched_timer \<Rightarrow> sched_timer list \<Rightarrow> sched_timer list" where
  "timer_insert timer [] = [timer]"
| "timer_insert timer (p # ps) =
     (if sched_time_diff (waketime timer) (waketime p) < 0 then timer # p # ps
      else p # timer_insert timer ps)"

definition sched_add_timer :: "sched_timer \<Rightarrow> sched_timer list \<Rightarrow> sched_timer list" where
  "sched_add_timer timer s_timer_list =
     (case func timer of None \<Rightarrow> s_timer_list | Some f \<Rightarrow> timer_insert timer s_timer_list)"

fun sched_del_timer :: "nat \<Rightarrow> sched_timer list \<Rightarrow> sched_timer list" where
  "sched_del_timer t [] = []"
| "sched_del_timer t (p # ps) = (if tid p = t then ps else p # sched_del_timer t ps)"

text \<open>
  One turn of the \<^verbatim>\<open>for (;;)\<close> loop of \<^verbatim>\<open>sched_main\<close>: \<open>None\<close> is the \<^verbatim>\<open>break\<close> (empty
  list, or head not yet due), \<open>Some\<close> the timer list after the head's callback ran.
  A registered timer has a callback (\<^verbatim>\<open>sched_add_timer\<close> refuses one without); for a node
  without one the model leaves the list as it is after the removal.
\<close>

definition sched_main_turn :: "sched_time_t \<Rightarrow> sched_timer list \<Rightarrow> sched_timer list option" where
  "sched_main_turn now s_timer_list =
     (case s_timer_list of
        [] \<Rightarrow> None
      | timer # rest \<Rightarrow>
          if \<not> sched_is_before now (waketime timer) then None
          else (case func timer of
                  None \<Rightarrow> Some rest
                | Some f \<Rightarrow>
                    (let next_waketime = f (waketime timer)
                     in if next_waketime \<noteq> 0
                        then Some (sched_add_timer (timer\<lparr>waketime := next_waketime\<rparr>) rest)
                        else Some rest)))"

text \<open>
  \<^verbatim>\<open>sched_main\<close>: the loop runs until a turn breaks. \<open>clock k\<close> is the time read in the
  \<open>k\<close>-th turn. The loop need not end (a callback may keep asking for a time that is
  already due), so the result is an option and \<open>None\<close> means that it does not return.
\<close>

partial_function (option) sched_main_loop ::
  "(nat \<Rightarrow> sched_time_t) \<Rightarrow> nat \<Rightarrow> sched_timer list \<Rightarrow> sched_timer list option" where
  "sched_main_loop clock k s_timer_list =
     (case sched_main_turn (clock k) s_timer_list of
        None \<Rightarrow> Some s_timer_list
      | Some l \<Rightarrow> sched_main_loop clock (Suc k) l)"

definition sched_main ::
  "bool \<Rightarrow> (nat \<Rightarrow> sched_time_t) \<Rightarrow> sched_timer list \<Rightarrow> sched_timer list option" where
  "sched_main s_shutdown_flag clock s_timer_list =
     (if s_shutdown_flag then Some s_timer_list else sched_main_loop clock 0 s_timer_list)"

text \<open>The sampling callback of src/endstop.c, as far as the scheduler sees it.\<close>

definition ENDSTOP_SAMPLE_INTERVAL :: sched_time_t where
  "ENDSTOP_SAMPLE_INTERVAL = 1000"

definition endstop_timer_callback_time :: "sched_time_t \<Rightarrow> sched_time_t" where
  "endstop_timer_callback_time wt = wt + ENDSTOP_SAMPLE_INTERVAL"

section \<open>Trapezoidal queue (chelper/trapq.c, chelper/trapq.h)\<close>

text \<open>
  Record fields carry a short prefix (\<open>co_\<close> for \<^verbatim>\<open>struct coord\<close>, \<open>mv_\<close> for
  \<^verbatim>\<open>struct move\<close>), since a field name is a constant of the theory. A move also records
  the index of its slot in \<^verbatim>\<open>move_pool\<close> (in C, the address of the move).
\<close>

record coord =
  co_x :: real
  co_y :: real
  co_z :: real
  co_e :: real

record move =
  mv_print_time :: real
  mv_move_t :: real
  mv_start_v :: real
  mv_half_accel :: real
  mv_cruise_v :: real
  mv_accel_t :: real
  mv_cruise_t :: real
  mv_decel_t :: real
  mv_start_pos :: coord
  mv_axes_r :: coord
  mv_slot :: nat

record trapq =
  moves :: "move list"
  history :: "move list"

definition TRAPQ_MAX_MOVES :: nat where
  "TRAPQ_MAX_MOVES = 32"

text \<open>\<^verbatim>\<open>trapq_pool_init\<close> clears \<^verbatim>\<open>move_pool_used\<close>.\<close>

definition trapq_pool_init :: "bool list" where
  "trapq_pool_init = replicate TRAPQ_MAX_MOVES False"

definition trapq_alloc :: trapq where
  "trapq_alloc = \<lparr>moves = [], history = []\<rparr>"

text \<open>The scan of \<^verbatim>\<open>move_alloc\<close> for the first free slot, from index \<open>i\<close> on.\<close>

fun move_alloc_from :: "nat \<Rightarrow> bool list \<Rightarrow> nat option" where
  "move_alloc_from i [] = None"
| "move_alloc_from i (u # us) = (if \<not> u then Some i else move_alloc_from (Suc i) us)"

definition move_alloc :: "bool list \<Rightarrow> (nat \<times> bool list) option" where
  "move_alloc move_pool_used =
     (case move_alloc_from 0 move_pool_used of
        None \<Rightarrow> None
      | Some i \<Rightarrow> Some (i, move_pool_used[i := True]))"

definition move_free :: "move \<Rightarrow> bool list \<Rightarrow> bool list" where
  "move_free m move_pool_used =
     (if mv_slot m < TRAPQ_MAX_MOVES then move_pool_used[mv_slot m := False] else move_pool_used)"

definition move_get_distance :: "move \<Rightarrow> real \<Rightarrow> real" where
  "move_get_distance m move_time0 =
     (if move_time0 \<le> 0 then 0
      else
        (let move_time = (if move_time0 \<ge> mv_move_t m then mv_move_t m else move_time0);
             accel_t = mv_accel_t m; cruise_t = mv_cruise_t m; decel_t = mv_decel_t m;
             dist0 = 0; t0 = move_time;
             (dist1, t1) =
               (if t0 > 0 \<and> accel_t > 0 then
                  (let a_t = (if t0 < accel_t then t0 else accel_t)
                   in (dist0 + (mv_start_v m * a_t + mv_half_accel m * a_t * a_t), t0 - a_t))
                else (dist0, t0));
             (dist2, t2) =
               (if t1 > 0 \<and> cruise_t > 0 then
                  (let c_t = (if t1 < cruise_t then t1 else cruise_t)
                   in (dist1 + mv_cruise_v m * c_t, t1 - c_t))
                else (dist1, t1));
             dist3 =
               (if t2 > 0 \<and> decel_t > 0 then
                  (let d_t = (if t2 < decel_t then t2 else decel_t)
                   in dist2 + (mv_cruise_v m * d_t - mv_half_accel m * d_t * d_t))
                else dist2)
         in dist3))"

definition move_get_coord :: "move \<Rightarrow> real \<Rightarrow> coord" where
  "move_get_coord m move_time =
     (let dist = move_get_distance m move_time
      in \<lparr>co_x = co_x (mv_start_pos m) + co_x (mv_axes_r m) * dist,
          co_y = co_y (mv_start_pos m) + co_y (mv_axes_r m) * dist,
          co_z = co_z (mv_start_pos m) + co_z (mv_axes_r m) * dist,
          co_e = co_e (mv_start_pos m) + co_e (mv_axes_r m) * dist\<rparr>)"

text \<open>
  \<^verbatim>\<open>trapq_append\<close> returns \<^verbatim>\<open>void\<close>: its whole effect is the new queue and the new pool
  occupancy. When \<^verbatim>\<open>move_alloc\<close> fails it returns at once.
\<close>

definition trapq_append ::
  "trapq \<Rightarrow> bool list \<Rightarrow> real \<Rightarrow> real \<Rightarrow> real \<Rightarrow> real \<Rightarrow> coord \<Rightarrow> coord \<Rightarrow> real \<Rightarrow> real \<Rightarrow> real
     \<Rightarrow> trapq \<times> bool list" where
  "trapq_append tq move_pool_used print_time accel_t cruise_t decel_t start_pos axes_r
       start_v cruise_v accel =
     (case move_alloc move_pool_used of
        None \<Rightarrow> (tq, move_pool_used)
      | Some (i, pool') \<Rightarrow>
          (tq\<lparr>moves := moves tq @
               [\<lparr>mv_print_time = print_time, mv_move_t = accel_t + cruise_t + decel_t,
                 mv_start_v = start_v, mv_half_accel = accel * (1 / 2), mv_cruise_v = cruise_v,
                 mv_accel_t = accel_t, mv_cruise_t = cruise_t, mv_decel_t = decel_t,
                 mv_start_pos = start_pos, mv_axes_r = axes_r, mv_slot = i\<rparr>]\<rparr>,
           pool'))"

definition trapq_finalize_moves :: "trapq \<Rightarrow> real \<Rightarrow> trapq" where
  "trapq_finalize_moves tq print_time =
     \<lparr>moves = filter (\<lambda>m. \<not> (mv_print_time m + mv_move_t m \<le> print_time)) (moves tq),
      history = history tq @
        filter (\<lambda>m. mv_print_time m + mv_move_t m \<le> print_time) (moves tq)\<rparr>"

definition trapq_free_moves :: "trapq \<Rightarrow> bool list \<Rightarrow> real \<Rightarrow> trapq \<times> bool list" where
  "trapq_free_moves tq move_pool_used print_time =
     (tq\<lparr>history := filter (\<lambda>m. \<not> (mv_print_time m + mv_move_t m < print_time)) (history tq)\<rparr>,
      fold move_free
        (filter (\<lambda>m. mv_print_time m + mv_move_t m < print_time) (history tq)) move_pool_used)"

definition trapq_has_moves :: "trapq \<Rightarrow> bool" where
  "trapq_has_moves tq = (moves tq \<noteq> [])"

section \<open>Cartesian kinematics (chelper/kin_cartesian.c)\<close>

definition cartesian_calc_direction :: "coord \<Rightarrow> coord \<Rightarrow> real \<times> coord" where
  "cartesian_calc_direction start end_pos =
     (let dx = co_x end_pos - co_x start; dy = co_y end_pos - co_y start;
          dz = co_z end_pos - co_z start; de = co_e end_pos - co_e start;
          dist = sqrt (dx * dx + dy * dy + dz * dz + de * de)
      in if dist < 1 / 10 ^ 9 then (0, \<lparr>co_x = 0, co_y = 0, co_z = 0, co_e = 0\<rparr>)
         else
           (let inv_dist = 1 / dist
            in (dist, \<lparr>co_x = dx * inv_dist, co_y = dy * inv_dist,
                       co_z = dz * inv_dist, co_e = de * inv_dist\<rparr>)))"

section \<open>Motion planner (app/toolhead.c, app/toolhead.h)\<close>

subsection \<open>Constants and types\<close>

definition MIN_MOVE_DISTANCE :: real where
  "MIN_MOVE_DISTANCE = 1 / 10 ^ 6"

definition HOMING_SPEED :: real where
  "HOMING_SPEED = 10"

definition HOMING_RETRACT :: real where
  "HOMING_RETRACT = 5"

definition HOMING_TIMEOUT :: real where
  "HOMING_TIMEOUT = 30"

definition LOOKAHEAD_SIZE :: nat where
  "LOOKAHEAD_SIZE = 16"

definition TOOLHEAD_OK :: int where
  "TOOLHEAD_OK = 0"

definition TOOLHEAD_ERR_NULL :: int where
  "TOOLHEAD_ERR_NULL = - 1"

definition TOOLHEAD_ERR_LIMIT :: int where
  "TOOLHEAD_ERR_LIMIT = - 2"

definition TOOLHEAD_ERR_QUEUE :: int where
  "TOOLHEAD_ERR_QUEUE = - 3"

definition TOOLHEAD_ERR_HOMING :: int where
  "TOOLHEAD_ERR_HOMING = - 5"

record toolhead_config =
  max_velocity :: real
  max_accel :: real
  max_accel_to_decel :: real
  square_corner_velocity :: real

text \<open>\<^verbatim>\<open>lookahead_move_t\<close>, fields prefixed \<open>lm_\<close>.\<close>

record lookahead_move =
  lm_start_pos :: coord
  lm_end_pos :: coord
  lm_distance :: real
  lm_max_velocity :: real
  lm_max_start_v :: real
  lm_max_cruise_v :: real
  lm_max_end_v :: real
  lm_start_v :: real
  lm_cruise_v :: real
  lm_end_v :: real
  lm_valid :: bool

datatype home_state_t =
  HOME_STATE_IDLE | HOME_STATE_FAST | HOME_STATE_RETRACT | HOME_STATE_SLOW
  | HOME_STATE_DONE | HOME_STATE_ERROR

record home_context =
  hc_state :: home_state_t
  hc_axis_mask :: "8 word"
  hc_start_time :: real
  hc_triggered :: bool

text \<open>
  The static variables of toolhead.c, with the move pool of trapq.c (\<open>th_move_pool_used\<close>)
  beside the queue it serves. \<open>s_p_trapq\<close> is \<open>None\<close> for the null pointer. The stepper
  kinematics objects and the completion callback are not part of the model: step
  generation does not write any of the variables below.

  \<open>s_emitted\<close> has no counterpart in the source. It is a history variable of the proof:
  the resolved lookahead moves in the order in which they were handed to
  \<^verbatim>\<open>trapq_append\<close>. Nothing in the model reads it.
\<close>

record toolhead =
  s_current_pos :: coord
  s_commanded_pos :: coord
  s_p_trapq :: "trapq option"
  th_move_pool_used :: "bool list"
  s_print_time :: real
  s_config :: toolhead_config
  s_initialized :: bool
  s_lookahead :: "lookahead_move list"
  s_lookahead_head :: nat
  s_lookahead_tail :: nat
  s_lookahead_count :: nat
  s_home_ctx :: home_context
  s_min_pos :: "real list"
  s_max_pos :: "real list"
  s_emitted :: "lookahead_move list"

definition coord_zero :: coord where
  "coord_zero = \<lparr>co_x = 0, co_y = 0, co_z = 0, co_e = 0\<rparr>"

definition lookahead_move_zero :: lookahead_move where
  "lookahead_move_zero =
     \<lparr>lm_start_pos = coord_zero, lm_end_pos = coord_zero, lm_distance = 0, lm_max_velocity = 0,
      lm_max_start_v = 0, lm_max_cruise_v = 0, lm_max_end_v = 0, lm_start_v = 0,
      lm_cruise_v = 0, lm_end_v = 0, lm_valid = False\<rparr>"

subsection \<open>Private functions\<close>

definition config_init_defaults :: toolhead_config where
  "config_init_defaults =
     \<lparr>max_velocity = 200, max_accel = 3000, max_accel_to_decel = 3000 * (1 / 2),
      square_corner_velocity = 5\<rparr>"

definition calc_move_distance :: "coord \<Rightarrow> coord \<Rightarrow> real" where
  "calc_move_distance start end_pos =
     (let dx = co_x end_pos - co_x start; dy = co_y end_pos - co_y start;
          dz = co_z end_pos - co_z start; de = co_e end_pos - co_e start
      in sqrt (dx * dx + dy * dy + dz * dz + de * de))"

text \<open>The three outputs are returned as the triple (accel_t, cruise_t, decel_t).\<close>

definition calc_trapezoidal_profile ::
  "real \<Rightarrow> real \<Rightarrow> real \<Rightarrow> real \<Rightarrow> real \<Rightarrow> real \<times> real \<times> real" where
  "calc_trapezoidal_profile distance start_v cruise_v end_v accel =
     (let (accel_t0, accel_dist) =
            (if cruise_v > start_v
             then ((cruise_v - start_v) / accel,
                   (start_v + cruise_v) * (1 / 2) * ((cruise_v - start_v) / accel))
             else (0, 0));
          (decel_t0, decel_dist) =
            (if cruise_v > end_v
             then ((cruise_v - end_v) / accel,
                   (cruise_v + end_v) * (1 / 2) * ((cruise_v - end_v) / accel))
             else (0, 0));
          cruise_dist = distance - accel_dist - decel_dist
      in if cruise_dist < 0 then
           (let peak_v_sq = (start_v * start_v + end_v * end_v) * (1 / 2) + accel * distance;
                peak_v0 = sqrt peak_v_sq;
                peak_v1 = (if peak_v0 < start_v then start_v else peak_v0);
                peak_v = (if peak_v1 < end_v then end_v else peak_v1);
                accel_t = (if peak_v > start_v then (peak_v - start_v) / accel else 0);
                decel_t = (if peak_v > end_v then (peak_v - end_v) / accel else 0)
            in (accel_t, 0, decel_t))
         else (accel_t0, cruise_dist / cruise_v, decel_t0))"

definition calc_junction_velocity :: "toolhead_config \<Rightarrow> coord \<Rightarrow> coord \<Rightarrow> real \<Rightarrow> real" where
  "calc_junction_velocity cfg prev_dir next_dir max_v =
     (let dot = co_x prev_dir * co_x next_dir + co_y prev_dir * co_y next_dir
                + co_z prev_dir * co_z next_dir
      in if dot < - (999 / 1000) then 0
         else if dot > 999 / 1000 then max_v
         else
           (let sin_half_theta = sqrt ((1 - dot) * (1 / 2));
                deviation = square_corner_velocity cfg * square_corner_velocity cfg / max_accel cfg;
                junction_v = sqrt (max_accel cfg * deviation / sin_half_theta)
            in if junction_v > max_v then max_v else junction_v))"

definition lookahead_push :: "lookahead_move \<Rightarrow> toolhead \<Rightarrow> int \<times> toolhead" where
  "lookahead_push mv st =
     (if s_lookahead_count st \<ge> LOOKAHEAD_SIZE then (- 1, st)
      else (0, st\<lparr>s_lookahead := (s_lookahead st)[s_lookahead_tail st := mv],
                  s_lookahead_tail := (s_lookahead_tail st + 1) mod LOOKAHEAD_SIZE,
                  s_lookahead_count := s_lookahead_count st + 1\<rparr>))"

text \<open>\<open>None\<close> is the return value -1 of \<^verbatim>\<open>lookahead_pop\<close> (queue empty).\<close>

definition lookahead_pop :: "toolhead \<Rightarrow> (lookahead_move \<times> toolhead) option" where
  "lookahead_pop st =
     (if s_lookahead_count st = 0 then None
      else Some (s_lookahead st ! s_lookahead_head st,
                 st\<lparr>s_lookahead_head := (s_lookahead_head st + 1) mod LOOKAHEAD_SIZE,
                    s_lookahead_count := s_lookahead_count st - 1\<rparr>))"

text \<open>
  The body of the reverse loop of \<^verbatim>\<open>lookahead_process\<close>, for \<^verbatim>\<open>curr\<close> at index \<open>idx\<close>
  and \<^verbatim>\<open>prev\<close> at the index before it in the ring.
\<close>

definition lookahead_reverse_step ::
  "toolhead_config \<Rightarrow> nat \<Rightarrow> lookahead_move list \<Rightarrow> lookahead_move list" where
  "lookahead_reverse_step cfg idx la =
     (let prev_idx = (idx + LOOKAHEAD_SIZE - 1) mod LOOKAHEAD_SIZE;
          curr = la ! idx;
          prev = la ! prev_idx;
          max_start_v_sq = lm_max_end_v curr * lm_max_end_v curr
                           + 2 * max_accel cfg * lm_distance curr;
          max_start_v0 = sqrt max_start_v_sq;
          max_start_v = (if max_start_v0 > lm_max_cruise_v curr then lm_max_cruise_v curr
                         else max_start_v0);
          prev_dir = snd (cartesian_calc_direction (lm_start_pos prev) (lm_end_pos prev));
          curr_dir = snd (cartesian_calc_direction (lm_start_pos curr) (lm_end_pos curr));
          junction_v = calc_junction_velocity cfg prev_dir curr_dir max_start_v;
          curr' = curr\<lparr>lm_max_start_v := (if junction_v < max_start_v then junction_v
                                            else max_start_v)\<rparr>;
          la1 = la[idx := curr']
      in la1[prev_idx := (la1 ! prev_idx)\<lparr>lm_max_end_v := lm_max_start_v curr'\<rparr>])"

text \<open>
  The reverse loop; \<open>n\<close> is the number of turns left (\<^verbatim>\<open>i\<close> runs from
  \<^verbatim>\<open>s_lookahead_count - 1\<close> down to 1).
\<close>

fun lookahead_reverse ::
  "toolhead_config \<Rightarrow> nat \<Rightarrow> nat \<Rightarrow> lookahead_move list \<Rightarrow> lookahead_move list" where
  "lookahead_reverse cfg 0 idx la = la"
| "lookahead_reverse cfg (Suc n) idx la =
     lookahead_reverse cfg n ((idx + LOOKAHEAD_SIZE - 1) mod LOOKAHEAD_SIZE)
       (lookahead_reverse_step cfg idx la)"

text \<open>The body of the forward loop, for the move at index \<open>idx\<close>.\<close>

definition lookahead_forward_step ::
  "toolhead_config \<Rightarrow> nat \<Rightarrow> real \<Rightarrow> lookahead_move list \<Rightarrow> lookahead_move list" where
  "lookahead_forward_step cfg idx prev_end_v la =
     (let mv = la ! idx;
          start_v = prev_end_v;
          max_cruise_v_sq = start_v * start_v + 2 * max_accel cfg * lm_distance mv;
          max_cruise_v0 = sqrt max_cruise_v_sq;
          max_cruise_v = (if max_cruise_v0 > lm_max_cruise_v mv then lm_max_cruise_v mv
                          else max_cruise_v0);
          max_end_v_sq = max_cruise_v * max_cruise_v
                         - 2 * max_accel_to_decel cfg * lm_distance mv;
          max_end_v0 = (if max_end_v_sq > 0 then sqrt max_end_v_sq else 0);
          max_end_v = (if max_end_v0 > lm_max_end_v mv then lm_max_end_v mv else max_end_v0)
      in la[idx := mv\<lparr>lm_start_v := start_v, lm_cruise_v := max_cruise_v,
                         lm_end_v := max_end_v\<rparr>])"

text \<open>
  The forward loop; \<open>n\<close> is the number of turns left. The next \<^verbatim>\<open>prev_end_v\<close> is read
  back from the move just written (\<^verbatim>\<open>prev_end_v = move->end_v\<close>).
\<close>

fun lookahead_forward ::
  "toolhead_config \<Rightarrow> nat \<Rightarrow> nat \<Rightarrow> real \<Rightarrow> lookahead_move list \<Rightarrow> lookahead_move list" where
  "lookahead_forward cfg 0 idx prev_end_v la = la"
| "lookahead_forward cfg (Suc n) idx prev_end_v la =
     lookahead_forward cfg n ((idx + 1) mod LOOKAHEAD_SIZE)
       (lm_end_v (lookahead_forward_step cfg idx prev_end_v la ! idx))
       (lookahead_forward_step cfg idx prev_end_v la)"

definition lookahead_process :: "toolhead \<Rightarrow> toolhead" where
  "lookahead_process st =
     (if s_lookahead_count st = 0 then st
      else
        (let idx = (s_lookahead_tail st + LOOKAHEAD_SIZE - 1) mod LOOKAHEAD_SIZE;
             la0 = (s_lookahead st)[idx := (s_lookahead st ! idx)\<lparr>lm_max_end_v := 0\<rparr>];
             la1 = lookahead_reverse (s_config st) (s_lookahead_count st - 1) idx la0;
             la2 = lookahead_forward (s_config st) (s_lookahead_count st)
                     (s_lookahead_head st) 0 la1
         in st\<lparr>s_lookahead := la2\<rparr>))"

text \<open>
  The body shared by the loop of \<^verbatim>\<open>lookahead_flush\<close> and the draining loop of
  \<^verbatim>\<open>toolhead_move\<close> (the source has the same statements twice): profile, direction,
  append, advance the print time, set the current position. With a null queue the C
  code would dereference it; no caller gets there, since \<^verbatim>\<open>toolhead_move\<close> refuses to
  queue a move then, and the model leaves the state alone.
\<close>

definition emit_move :: "lookahead_move \<Rightarrow> toolhead \<Rightarrow> toolhead" where
  "emit_move mv st =
     (case s_p_trapq st of
        None \<Rightarrow> st
      | Some tq \<Rightarrow>
          (let (accel_t, cruise_t, decel_t) =
                 calc_trapezoidal_profile (lm_distance mv) (lm_start_v mv) (lm_cruise_v mv)
                   (lm_end_v mv) (max_accel (s_config st));
               axes_r = snd (cartesian_calc_direction (lm_start_pos mv) (lm_end_pos mv));
               (tq', pool') =
                 trapq_append tq (th_move_pool_used st) (s_print_time st) accel_t cruise_t decel_t
                   (lm_start_pos mv) axes_r (lm_start_v mv) (lm_cruise_v mv)
                   (max_accel (s_config st))
           in st\<lparr>s_p_trapq := Some tq', th_move_pool_used := pool',
                 s_print_time := s_print_time st + (accel_t + cruise_t + decel_t),
                 s_current_pos := lm_end_pos mv,
                 s_emitted := s_emitted st @ [mv]\<rparr>))"

lemma lookahead_pop_count:
  "lookahead_pop st = Some (mv, st') \<Longrightarrow> s_lookahead_count (emit_move mv st') < s_lookahead_count st"
  by (auto simp add: lookahead_pop_def emit_move_def Let_def split: if_splits option.splits prod.splits)

function lookahead_flush :: "toolhead \<Rightarrow> toolhead" where
  "lookahead_flush st =
     (case lookahead_pop st of
        None \<Rightarrow> st
      | Some (mv, st') \<Rightarrow> lookahead_flush (emit_move mv st'))"
  by pat_completeness auto
termination
  by (relation "measure s_lookahead_count") (auto simp add: lookahead_pop_count)

declare lookahead_flush.simps [simp del]

text \<open>
  The draining loop of \<^verbatim>\<open>toolhead_move\<close>, \<^verbatim>\<open>while (s_lookahead_count > 2)\<close>. The pop
  inside cannot fail, the count being above 2.
\<close>

function lookahead_drain :: "toolhead \<Rightarrow> toolhead" where
  "lookahead_drain st =
     (if s_lookahead_count st > 2 then
        (case lookahead_pop st of
           None \<Rightarrow> st
         | Some (mv, st') \<Rightarrow> lookahead_drain (emit_move mv st'))
      else st)"
  by pat_completeness auto
termination
  by (relation "measure s_lookahead_count") (auto simp add: lookahead_pop_count)

declare lookahead_drain.simps [simp del]

subsection \<open>Public functions\<close>

definition toolhead_boot :: toolhead where
  "toolhead_boot =
     \<lparr>s_current_pos = coord_zero, s_commanded_pos = coord_zero, s_p_trapq = None,
      th_move_pool_used = replicate TRAPQ_MAX_MOVES False, s_print_time = 0,
      s_config = \<lparr>max_velocity = 0, max_accel = 0, max_accel_to_decel = 0,
                  square_corner_velocity = 0\<rparr>,
      s_initialized = False,
      s_lookahead = replicate LOOKAHEAD_SIZE lookahead_move_zero,
      s_lookahead_head = 0, s_lookahead_tail = 0, s_lookahead_count = 0,
      s_home_ctx = \<lparr>hc_state = HOME_STATE_IDLE, hc_axis_mask = 0, hc_start_time = 0,
                    hc_triggered = False\<rparr>,
      s_min_pos = [0, 0, 0, 0], s_max_pos = [0, 0, 0, 0], s_emitted = []\<rparr>"

definition toolhead_init :: "toolhead \<Rightarrow> toolhead" where
  "toolhead_init st =
     (if s_initialized st then st
      else st\<lparr>th_move_pool_used := trapq_pool_init,
              s_p_trapq := Some trapq_alloc,
              s_config := config_init_defaults,
              s_min_pos := [0, 0, 0, - (10 ^ 9)],
              s_max_pos := [220, 220, 250, 10 ^ 9],
              s_current_pos := coord_zero, s_commanded_pos := coord_zero,
              s_print_time := 0,
              s_lookahead_head := 0, s_lookahead_tail := 0, s_lookahead_count := 0,
              s_home_ctx := (s_home_ctx st)\<lparr>hc_state := HOME_STATE_IDLE, hc_axis_mask := 0,
                                            hc_triggered := False\<rparr>,
              s_initialized := True\<rparr>)"

definition toolhead_get_position :: "toolhead \<Rightarrow> coord" where
  "toolhead_get_position st = s_commanded_pos st"

definition toolhead_set_position :: "coord \<Rightarrow> toolhead \<Rightarrow> toolhead" where
  "toolhead_set_position p_pos st = st\<lparr>s_current_pos := p_pos, s_commanded_pos := p_pos\<rparr>"

text \<open>
  \<^verbatim>\<open>toolhead_move\<close>. The target is passed by value (the null-pointer check of the source
  has no counterpart). The result is the return code and the state.
\<close>

definition toolhead_move :: "coord \<Rightarrow> real \<Rightarrow> toolhead \<Rightarrow> int \<times> toolhead" where
  "toolhead_move p_end_pos speed st =
     (if s_p_trapq st = None then (TOOLHEAD_ERR_QUEUE, st)
      else
        (let distance = calc_move_distance (s_commanded_pos st) p_end_pos
         in if distance < MIN_MOVE_DISTANCE then (TOOLHEAD_OK, st)
            else
              (let max_v0 = (if speed > max_velocity (s_config st)
                             then max_velocity (s_config st) else speed);
                   max_v = (if max_v0 < 1 / 1000 then max_velocity (s_config st) else max_v0)
               in if co_x p_end_pos < s_min_pos st ! 0 \<or> co_x p_end_pos > s_max_pos st ! 0 \<or>
                     co_y p_end_pos < s_min_pos st ! 1 \<or> co_y p_end_pos > s_max_pos st ! 1 \<or>
                     co_z p_end_pos < s_min_pos st ! 2 \<or> co_z p_end_pos > s_max_pos st ! 2
                  then (TOOLHEAD_ERR_LIMIT, st)
                  else
                    (let mv = \<lparr>lm_start_pos = s_commanded_pos st, lm_end_pos = p_end_pos,
                               lm_distance = distance, lm_max_velocity = max_v,
                               lm_max_start_v = max_v, lm_max_cruise_v = max_v,
                               lm_max_end_v = max_v, lm_start_v = 0, lm_cruise_v = max_v,
                               lm_end_v = 0, lm_valid = True\<rparr>;
                         (r1, st1) = lookahead_push mv st;
                         (r2, st2) =
                           (if r1 \<noteq> 0
                            then lookahead_push mv (lookahead_flush (lookahead_process st1))
                            else (r1, st1))
                     in if r2 \<noteq> 0 then (TOOLHEAD_ERR_QUEUE, st2)
                        else
                          (let st3 = st2\<lparr>s_commanded_pos := p_end_pos\<rparr>;
                               st4 = (if s_lookahead_count st3 \<ge> LOOKAHEAD_SIZE - 2
                                      then lookahead_drain (lookahead_process st3) else st3)
                           in (TOOLHEAD_OK, st4))))))"

text \<open>
  \<^verbatim>\<open>toolhead_wait_moves\<close> and \<^verbatim>\<open>toolhead_flush\<close>. The loop of the first that pumps the
  scheduler until the steppers stand still is outside the model (the steppers are), as is
  the completion callback.
\<close>

definition toolhead_wait_moves :: "toolhead \<Rightarrow> toolhead" where
  "toolhead_wait_moves st =
     (let st1 = lookahead_flush (lookahead_process st)
      in st1\<lparr>s_current_pos := s_commanded_pos st1\<rparr>)"

definition toolhead_flush :: "toolhead \<Rightarrow> toolhead" where
  "toolhead_flush st =
     (let st1 = lookahead_flush (lookahead_process st)
      in case s_p_trapq st1 of
           None \<Rightarrow> st1
         | Some tq \<Rightarrow>
             (let tq1 = trapq_finalize_moves tq (s_print_time st1);
                  (tq2, pool2) = trapq_free_moves tq1 (th_move_pool_used st1) (s_print_time st1 - 1)
              in st1\<lparr>s_p_trapq := Some tq2, th_move_pool_used := pool2\<rparr>))"

definition toolhead_has_moves :: "toolhead \<Rightarrow> bool" where
  "toolhead_has_moves st =
     (if s_lookahead_count st > 0 then True
      else (case s_p_trapq st of None \<Rightarrow> False | Some tq \<Rightarrow> trapq_has_moves tq))"

definition toolhead_set_config :: "toolhead_config \<Rightarrow> toolhead \<Rightarrow> toolhead" where
  "toolhead_set_config p_config st = st\<lparr>s_config := p_config\<rparr>"

section \<open>Endstops and homing (src/endstop.c, toolhead_home of app/toolhead.c)\<close>

unbundle bit_operations_syntax

datatype endstop_id = ENDSTOP_X | ENDSTOP_Y | ENDSTOP_Z

text \<open>
  \<^verbatim>\<open>endstop_state_t\<close> as far as homing uses it. The only callback the firmware ever
  registers is \<^verbatim>\<open>home_endstop_callback\<close>, so the callback pointer is a flag.
\<close>

record endstop_state =
  es_configured :: bool
  es_triggered :: bool
  es_homing :: bool
  es_callback :: bool

type_synonym endstops = "endstop_id \<Rightarrow> endstop_state"

definition AXIS_X_MASK :: "8 word" where
  "AXIS_X_MASK = 1"

definition AXIS_Y_MASK :: "8 word" where
  "AXIS_Y_MASK = 2"

definition AXIS_Z_MASK :: "8 word" where
  "AXIS_Z_MASK = 4"

definition axis_selected :: "8 word \<Rightarrow> endstop_id \<Rightarrow> bool" where
  "axis_selected axes_mask i =
     (case i of
        ENDSTOP_X \<Rightarrow> axes_mask AND AXIS_X_MASK \<noteq> 0
      | ENDSTOP_Y \<Rightarrow> axes_mask AND AXIS_Y_MASK \<noteq> 0
      | ENDSTOP_Z \<Rightarrow> axes_mask AND AXIS_Z_MASK \<noteq> 0)"

definition endstop_is_triggered :: "endstops \<Rightarrow> endstop_id \<Rightarrow> bool" where
  "endstop_is_triggered es i = es_triggered (es i)"

definition endstop_home_start :: "endstop_id \<Rightarrow> endstops \<Rightarrow> endstops" where
  "endstop_home_start i es = es(i := (es i)\<lparr>es_homing := True, es_triggered := False\<rparr>)"

definition endstop_home_end :: "endstop_id \<Rightarrow> endstops \<Rightarrow> endstops" where
  "endstop_home_end i es = es(i := (es i)\<lparr>es_homing := False\<rparr>)"

definition endstop_set_callback :: "endstop_id \<Rightarrow> endstops \<Rightarrow> endstops" where
  "endstop_set_callback i es = es(i := (es i)\<lparr>es_callback := True\<rparr>)"

text \<open>
  \<^verbatim>\<open>home_endstop_callback\<close> sets the trigger flag of the homing context (and stops a
  stepper, which is outside the model).
\<close>

definition home_endstop_callback :: "toolhead \<Rightarrow> toolhead" where
  "home_endstop_callback st = st\<lparr>s_home_ctx := (s_home_ctx st)\<lparr>hc_triggered := True\<rparr>\<rparr>"

text \<open>
  One endstop's share of \<^verbatim>\<open>endstop_timer_callback\<close>; \<open>level\<close> is what
  \<^verbatim>\<open>endstop_read_state\<close> returns for it at this sample (the pin after inversion).
\<close>

definition endstop_sample_one ::
  "(endstop_id \<Rightarrow> bool) \<Rightarrow> endstop_id \<Rightarrow> toolhead \<times> endstops \<Rightarrow> toolhead \<times> endstops" where
  "endstop_sample_one level i s =
     (case s of (st, es) \<Rightarrow>
        if \<not> es_configured (es i) then (st, es)
        else if level i \<and> \<not> es_triggered (es i) then
          (if es_callback (es i) then home_endstop_callback st else st,
           es(i := (es i)\<lparr>es_triggered := True\<rparr>))
        else if \<not> level i \<and> es_triggered (es i) then
          (st, es(i := (es i)\<lparr>es_triggered := False\<rparr>))
        else (st, es))"

definition endstop_timer_callback ::
  "(endstop_id \<Rightarrow> bool) \<Rightarrow> toolhead \<times> endstops \<Rightarrow> toolhead \<times> endstops" where
  "endstop_timer_callback level s =
     endstop_sample_one level ENDSTOP_Z
       (endstop_sample_one level ENDSTOP_Y (endstop_sample_one level ENDSTOP_X s))"

text \<open>
  What one call of \<^verbatim>\<open>sched_main\<close> from the homing loop does to the planner and the
  endstops: it runs the timers that are due, and the only timer callback that writes
  either is the endstop sampler. \<open>samples\<close> lists the pin levels of the samples taken
  during the call, in order (none if the sampler was not due). No timer callback of the
  firmware writes \<^verbatim>\<open>s_print_time\<close>.
\<close>

definition sched_main_samples ::
  "(endstop_id \<Rightarrow> bool) list \<Rightarrow> toolhead \<times> endstops \<Rightarrow> toolhead \<times> endstops" where
  "sched_main_samples samples s = fold endstop_timer_callback samples s"

text \<open>The direct check of the selected endstops in the body of the waiting loop.\<close>

definition home_check_one :: "8 word \<Rightarrow> endstop_id \<Rightarrow> toolhead \<times> endstops \<Rightarrow> toolhead \<times> endstops" where
  "home_check_one axes_mask i s =
     (case s of (st, es) \<Rightarrow>
        if axis_selected axes_mask i \<and> endstop_is_triggered es i
        then (home_endstop_callback st, es) else (st, es))"

definition home_wait_body ::
  "(endstop_id \<Rightarrow> bool) list \<Rightarrow> 8 word \<Rightarrow> toolhead \<times> endstops \<Rightarrow> toolhead \<times> endstops" where
  "home_wait_body samples axes_mask s =
     sched_main_samples samples
       (home_check_one axes_mask ENDSTOP_Z
          (home_check_one axes_mask ENDSTOP_Y (home_check_one axes_mask ENDSTOP_X s)))"

text \<open>
  The waiting loop of \<^verbatim>\<open>toolhead_home\<close>,
  \<^verbatim>\<open>while (!s_home_ctx.triggered && s_print_time < timeout_time)\<close>. \<open>polls k\<close> are the
  endstop samples taken by the \<open>k\<close>-th call of \<^verbatim>\<open>sched_main\<close>. The loop may run for
  ever: \<open>None\<close> says that it does.
\<close>

partial_function (option) home_wait ::
  "(nat \<Rightarrow> (endstop_id \<Rightarrow> bool) list) \<Rightarrow> 8 word \<Rightarrow> real \<Rightarrow> nat \<Rightarrow> toolhead \<times> endstops
     \<Rightarrow> (toolhead \<times> endstops) option" where
  "home_wait polls axes_mask timeout_time k s =
     (if \<not> hc_triggered (s_home_ctx (fst s)) \<and> s_print_time (fst s) < timeout_time
      then home_wait polls axes_mask timeout_time (Suc k) (home_wait_body (polls k) axes_mask s)
      else Some s)"

definition for_selected ::
  "8 word \<Rightarrow> (endstop_id \<Rightarrow> 'a \<Rightarrow> 'a) \<Rightarrow> 'a \<Rightarrow> 'a" where
  "for_selected axes_mask f a =
     (let a1 = (if axis_selected axes_mask ENDSTOP_X then f ENDSTOP_X a else a);
          a2 = (if axis_selected axes_mask ENDSTOP_Y then f ENDSTOP_Y a1 else a1)
      in if axis_selected axes_mask ENDSTOP_Z then f ENDSTOP_Z a2 else a2)"

definition set_axis :: "real \<Rightarrow> endstop_id \<Rightarrow> coord \<Rightarrow> coord" where
  "set_axis v i p =
     (case i of ENDSTOP_X \<Rightarrow> p\<lparr>co_x := v\<rparr> | ENDSTOP_Y \<Rightarrow> p\<lparr>co_y := v\<rparr> | ENDSTOP_Z \<Rightarrow> p\<lparr>co_z := v\<rparr>)"

definition axis_index :: "endstop_id \<Rightarrow> nat" where
  "axis_index i = (case i of ENDSTOP_X \<Rightarrow> 0 | ENDSTOP_Y \<Rightarrow> 1 | ENDSTOP_Z \<Rightarrow> 2)"

text \<open>
  \<^verbatim>\<open>toolhead_home\<close>: the part up to the waiting loop (which also yields the saved
  lower limits), the loop, and the part after it. The result is the return code with the
  planner and endstop state, or \<open>None\<close> when the function does not return.
\<close>

definition toolhead_home_start ::
  "8 word \<Rightarrow> toolhead \<times> endstops \<Rightarrow> real list \<times> toolhead \<times> endstops" where
  "toolhead_home_start axes_mask s =
     (case s of (st0, es0) \<Rightarrow>
        (let st1 = toolhead_wait_moves st0;
             es1 = for_selected axes_mask (\<lambda>i es. endstop_home_start i (endstop_set_callback i es)) es0;
             st2 = st1\<lparr>s_home_ctx := \<lparr>hc_state = HOME_STATE_FAST, hc_axis_mask = axes_mask,
                                       hc_start_time = s_print_time st1, hc_triggered = False\<rparr>\<rparr>;
             home_target = for_selected axes_mask
                             (\<lambda>i p. set_axis (s_min_pos st2 ! axis_index i - 10) i p)
                             (s_commanded_pos st2);
             saved_min = s_min_pos st2;
             st3 = st2\<lparr>s_min_pos := [- (10 ^ 9), - (10 ^ 9), - (10 ^ 9), - (10 ^ 9)]\<rparr>;
             st4 = snd (toolhead_move home_target (HOMING_SPEED * 2) st3);
             st5 = toolhead_flush st4
         in (saved_min, st5, es1)))"

definition toolhead_home_finish ::
  "8 word \<Rightarrow> real list \<Rightarrow> toolhead \<times> endstops \<Rightarrow> int \<times> toolhead \<times> endstops" where
  "toolhead_home_finish axes_mask saved_min s =
     (case s of (st6, es6) \<Rightarrow>
        (let st7 = st6\<lparr>s_min_pos := saved_min\<rparr>
         in if \<not> hc_triggered (s_home_ctx st7) then
              (TOOLHEAD_ERR_HOMING,
               st7\<lparr>s_home_ctx := (s_home_ctx st7)\<lparr>hc_state := HOME_STATE_ERROR\<rparr>\<rparr>,
               for_selected axes_mask endstop_home_end es6)
            else
              (let st8 = st7\<lparr>s_home_ctx := (s_home_ctx st7)\<lparr>hc_state := HOME_STATE_RETRACT,
                                                             hc_triggered := False\<rparr>\<rparr>;
                   retract_target = for_selected axes_mask (set_axis HOMING_RETRACT)
                                      (s_commanded_pos st8);
                   st9 = st8\<lparr>s_commanded_pos := for_selected axes_mask (set_axis 0) (s_commanded_pos st8),
                             s_current_pos := for_selected axes_mask (set_axis 0) (s_current_pos st8)\<rparr>;
                   st10 = snd (toolhead_move retract_target HOMING_SPEED st9);
                   st11 = toolhead_wait_moves (toolhead_flush st10)
               in (TOOLHEAD_OK,
                   st11\<lparr>s_home_ctx := (s_home_ctx st11)\<lparr>hc_state := HOME_STATE_DONE\<rparr>\<rparr>,
                   for_selected axes_mask endstop_home_end es6))))"

definition toolhead_home ::
  "(nat \<Rightarrow> (endstop_id \<Rightarrow> bool) list) \<Rightarrow> 8 word \<Rightarrow> toolhead \<times> endstops
     \<Rightarrow> (int \<times> toolhead \<times> endstops) option" where
  "toolhead_home polls axes_mask s =
     (case toolhead_home_start axes_mask s of (saved_min, s5) \<Rightarrow>
        (case home_wait polls axes_mask (s_print_time (fst s5) + HOMING_TIMEOUT) 0 s5 of
           None \<Rightarrow> None
         | Some s6 \<Rightarrow> Some (toolhead_home_finish axes_mask saved_min s6)))"

section \<open>G-code front end (app/gcode.c, app/gcode.h)\<close>

subsection \<open>Parser\<close>

text \<open>
  A line is a \<^typ>\<open>string\<close> without the terminating NUL of the C string: the end of the
  list is the NUL. Command codes are C \<^verbatim>\<open>int\<close>s, modelled by \<^typ>\<open>int\<close> (a digit string
  long enough to overflow \<^verbatim>\<open>int\<close> is outside the model). Fields of \<^verbatim>\<open>gcode_cmd_t\<close> are
  prefixed \<open>gc_\<close>.
\<close>

definition GCODE_OK :: int where
  "GCODE_OK = 0"

definition GCODE_ERR_NULL :: int where
  "GCODE_ERR_NULL = - 1"

definition GCODE_ERR_EMPTY :: int where
  "GCODE_ERR_EMPTY = - 2"

definition GCODE_ERR_COMMENT :: int where
  "GCODE_ERR_COMMENT = - 3"

definition GCODE_ERR_INVALID :: int where
  "GCODE_ERR_INVALID = - 4"

definition GCODE_ERR_PARAM :: int where
  "GCODE_ERR_PARAM = - 5"

definition GCODE_ERR_UNKNOWN :: int where
  "GCODE_ERR_UNKNOWN = - 6"

datatype gcode_mode_t = GCODE_MODE_ABSOLUTE | GCODE_MODE_RELATIVE

record gcode_cmd =
  gc_cmd :: char
  gc_code :: int
  gc_x :: real
  gc_y :: real
  gc_z :: real
  gc_e :: real
  gc_f :: real
  gc_s :: real
  has_x :: bool
  has_y :: bool
  has_z :: bool
  has_e :: bool
  has_f :: bool
  has_s :: bool

text \<open>\<^verbatim>\<open>gcode_cmd_clear\<close>: all bytes zero.\<close>

definition gcode_cmd_clear :: gcode_cmd where
  "gcode_cmd_clear =
     \<lparr>gc_cmd = CHR 0x00, gc_code = 0, gc_x = 0, gc_y = 0, gc_z = 0, gc_e = 0, gc_f = 0,
      gc_s = 0, has_x = False, has_y = False, has_z = False, has_e = False, has_f = False,
      has_s = False\<rparr>"

fun skip_whitespace :: "string \<Rightarrow> string" where
  "skip_whitespace [] = []"
| "skip_whitespace (c # cs) =
     (if c = CHR '' '' \<or> c = CHR 0x09 then skip_whitespace cs else c # cs)"

text \<open>Characters are compared by their codes: 48 is \<^verbatim>\<open>'0'\<close>, 57 is \<^verbatim>\<open>'9'\<close>.\<close>

definition is_digit :: "char \<Rightarrow> bool" where
  "is_digit c = ((48 :: nat) \<le> of_char c \<and> of_char c \<le> (57 :: nat))"

definition digit_val :: "char \<Rightarrow> nat" where
  "digit_val c = of_char c - 48"

text \<open>
  \<^verbatim>\<open>toupper\<close> of the C locale, and the digit test \<^verbatim>\<open>'0' <= c && c <= '9'\<close>, on the
  character codes (48 is \<^verbatim>\<open>'0'\<close>, 97 is \<^verbatim>\<open>'a'\<close>).
\<close>

definition toupper :: "char \<Rightarrow> char" where
  "toupper c =
     (if (97 :: nat) \<le> of_char c \<and> of_char c \<le> (122 :: nat)
      then char_of (of_char c - (32 :: nat)) else c)"

text \<open>
  The digit loops of \<^verbatim>\<open>parse_command\<close> (accumulating the code) and of
  \<^verbatim>\<open>parse_parameters\<close> (skipping it).
\<close>

fun parse_code :: "int \<Rightarrow> string \<Rightarrow> int \<times> string" where
  "parse_code code [] = (code, [])"
| "parse_code code (c # cs) =
     (if is_digit c then parse_code (code * 10 + int (digit_val c)) cs else (code, c # cs))"

fun skip_digits :: "string \<Rightarrow> string" where
  "skip_digits [] = []"
| "skip_digits (c # cs) = (if is_digit c then skip_digits cs else c # cs)"

text \<open>
  \<^verbatim>\<open>parse_command\<close>: the return code and the command structure with letter and code
  stored (on success).
\<close>

definition parse_command :: "string \<Rightarrow> gcode_cmd \<Rightarrow> int \<times> gcode_cmd" where
  "parse_command line p_cmd =
     (case skip_whitespace line of
        [] \<Rightarrow> (GCODE_ERR_INVALID, p_cmd)
      | c # rest \<Rightarrow>
          (let cmd_char = toupper c
           in if cmd_char \<noteq> CHR ''G'' \<and> cmd_char \<noteq> CHR ''M'' then (GCODE_ERR_INVALID, p_cmd)
              else (GCODE_OK, p_cmd\<lparr>gc_cmd := cmd_char, gc_code := fst (parse_code 0 rest)\<rparr>)))"

text \<open>
  The loop of \<^verbatim>\<open>parse_float\<close>: the state is (result, fraction, divisor, has_digits,
  in_fraction) and the rest of the string.
\<close>

fun parse_float_loop ::
  "real \<Rightarrow> real \<Rightarrow> real \<Rightarrow> bool \<Rightarrow> bool \<Rightarrow> string \<Rightarrow> real \<times> real \<times> bool \<times> string" where
  "parse_float_loop result fraction divisor has_digits in_fraction [] =
     (result, fraction, has_digits, [])"
| "parse_float_loop result fraction divisor has_digits in_fraction (c # cs) =
     (if is_digit c then
        (if in_fraction
         then parse_float_loop result (fraction + real (digit_val c) / divisor) (divisor * 10)
                True in_fraction cs
         else parse_float_loop (result * 10 + real (digit_val c)) fraction divisor True
                in_fraction cs)
      else if c = CHR ''.'' \<and> \<not> in_fraction
      then parse_float_loop result fraction divisor has_digits True cs
      else (result, fraction, has_digits, c # cs))"

text \<open>\<^verbatim>\<open>parse_float\<close>: \<open>None\<close> is the return value -1 (no digit).\<close>

definition parse_float :: "string \<Rightarrow> (real \<times> string) option" where
  "parse_float str0 =
     (let str1 = skip_whitespace str0;
          (negative, str2) =
            (case str1 of
               [] \<Rightarrow> (False, str1)
             | c # cs \<Rightarrow> if c = CHR ''-'' then (True, cs)
                         else if c = CHR ''+'' then (False, cs) else (False, str1));
          (result, fraction, has_digits, rest) = parse_float_loop 0 0 10 False False str2
      in if \<not> has_digits then None
         else Some (if negative then - (result + fraction) else result + fraction, rest))"

definition store_param :: "char \<Rightarrow> real \<Rightarrow> gcode_cmd \<Rightarrow> gcode_cmd" where
  "store_param param_char val p_cmd =
     (if param_char = CHR ''X'' then p_cmd\<lparr>gc_x := val, has_x := True\<rparr>
      else if param_char = CHR ''Y'' then p_cmd\<lparr>gc_y := val, has_y := True\<rparr>
      else if param_char = CHR ''Z'' then p_cmd\<lparr>gc_z := val, has_z := True\<rparr>
      else if param_char = CHR ''E'' then p_cmd\<lparr>gc_e := val, has_e := True\<rparr>
      else if param_char = CHR ''F'' then p_cmd\<lparr>gc_f := val, has_f := True\<rparr>
      else if param_char = CHR ''S'' then p_cmd\<lparr>gc_s := val, has_s := True\<rparr>
      else p_cmd)"

lemma skip_whitespace_length: "length (skip_whitespace s) \<le> length s"
  by (induction s) auto

lemma parse_float_loop_length:
  "parse_float_loop r f d h i s = (r', f', h', rest) \<Longrightarrow> length rest \<le> length s"
  by (induction r f d h i s rule: parse_float_loop.induct) (auto split: if_splits)

lemma sign_strip_length:
  "(case w of
      [] \<Rightarrow> (False, w)
    | c # cs \<Rightarrow> if c = CHR ''-'' then (True, cs)
                else if c = CHR ''+'' then (False, cs) else (False, w)) = (neg, s2)
   \<Longrightarrow> length s2 \<le> length w"
  by (cases w) (auto split: if_splits)

lemma parse_float_length: "parse_float s = Some (v, rest) \<Longrightarrow> length rest \<le> length s"
proof -
  assume a: "parse_float s = Some (v, rest)"
  obtain neg s2 where n: "(case skip_whitespace s of
               [] \<Rightarrow> (False, skip_whitespace s)
             | c # cs \<Rightarrow> if c = CHR ''-'' then (True, cs)
                         else if c = CHR ''+'' then (False, cs) else (False, skip_whitespace s)) = (neg, s2)"
    by fastforce
  have l2: "length s2 \<le> length (skip_whitespace s)"
    using n by (rule sign_strip_length)
  obtain r f h rs where p: "parse_float_loop 0 0 10 False False s2 = (r, f, h, rs)"
    by (metis prod_cases4)
  have "rest = rs" using a n p by (simp add: parse_float_def Let_def split: if_splits)
  then show ?thesis
    using parse_float_loop_length[OF p] l2 skip_whitespace_length[of s] by simp
qed

text \<open>
  The parameter loop of \<^verbatim>\<open>parse_parameters\<close>. A parameter letter whose value does not
  parse is dropped, except for G28, where it is stored with the value 0.
\<close>

function parse_parameters_loop :: "string \<Rightarrow> gcode_cmd \<Rightarrow> gcode_cmd" where
  "parse_parameters_loop p_pos p_cmd =
     (case skip_whitespace p_pos of
        [] \<Rightarrow> p_cmd
      | c # rest \<Rightarrow>
          if c = CHR 0x0A \<or> c = CHR 0x0D \<or> c = CHR '';'' then p_cmd
          else
            (case parse_float rest of
               None \<Rightarrow>
                 if gc_cmd p_cmd = CHR ''G'' \<and> gc_code p_cmd = 28
                 then parse_parameters_loop rest (store_param (toupper c) 0 p_cmd)
                 else parse_parameters_loop rest p_cmd
             | Some (val, rest') \<Rightarrow> parse_parameters_loop rest' (store_param (toupper c) val p_cmd)))"
  by pat_completeness auto
termination
proof (relation "measure (\<lambda>(p, c). length p)", goal_cases)
  case 1
  then show ?case by simp
next
  case (2 p_pos p_cmd c rest)
  then show ?case using skip_whitespace_length[of p_pos] by simp
next
  case (3 p_pos p_cmd c rest)
  then show ?case using skip_whitespace_length[of p_pos] by simp
next
  case (4 p_pos p_cmd c rest x2 val rest')
  then show ?case
    using skip_whitespace_length[of p_pos] parse_float_length[of rest val rest'] by simp
qed

declare parse_parameters_loop.simps [simp del]

definition parse_parameters :: "string \<Rightarrow> gcode_cmd \<Rightarrow> int \<times> gcode_cmd" where
  "parse_parameters line p_cmd =
     (let p0 = skip_whitespace line;
          p1 = (case p0 of
                  [] \<Rightarrow> p0
                | c # cs \<Rightarrow>
                    if c = CHR ''G'' \<or> c = CHR ''g'' \<or> c = CHR ''M'' \<or> c = CHR ''m''
                    then skip_digits cs else p0)
      in (GCODE_OK, parse_parameters_loop p1 p_cmd))"

definition is_supported_gcode :: "char \<Rightarrow> int \<Rightarrow> bool" where
  "is_supported_gcode c n =
     (if c = CHR ''G'' then n = 0 \<or> n = 1 \<or> n = 28 \<or> n = 90 \<or> n = 91
      else if c = CHR ''M'' then n = 104 \<or> n = 109 \<or> n = 106 \<or> n = 107 \<or> n = 114
      else False)"

definition gcode_parse_line :: "string \<Rightarrow> int \<times> gcode_cmd" where
  "gcode_parse_line line =
     (let p_cmd = gcode_cmd_clear;
          p_pos = skip_whitespace line
      in if p_pos = [] \<or> hd p_pos = CHR 0x0A \<or> hd p_pos = CHR 0x0D then (GCODE_ERR_EMPTY, p_cmd)
         else if hd p_pos = CHR '';'' then (GCODE_ERR_COMMENT, p_cmd)
         else
           (case parse_command p_pos p_cmd of (ret, p_cmd1) \<Rightarrow>
              if ret \<noteq> GCODE_OK then (ret, p_cmd1)
              else if \<not> is_supported_gcode (gc_cmd p_cmd1) (gc_code p_cmd1)
              then (GCODE_ERR_UNKNOWN, p_cmd1)
              else
                (case parse_parameters p_pos p_cmd1 of (ret2, p_cmd2) \<Rightarrow>
                   if ret2 \<noteq> GCODE_OK then (ret2, p_cmd2) else (GCODE_OK, p_cmd2))))"

subsection \<open>Dispatcher\<close>

text \<open>
  The firmware links gcode.c with toolhead.c and heater.c, whose functions replace the
  weak defaults of gcode.c: \<^verbatim>\<open>toolhead_move\<close>, \<^verbatim>\<open>toolhead_get_position\<close>,
  \<^verbatim>\<open>toolhead_home\<close>, \<^verbatim>\<open>heater_set_temp\<close> and \<^verbatim>\<open>heater_is_at_target\<close> below are the ones
  modelled above. gcode.c passes a position as four numbers where toolhead.c takes a
  \<^verbatim>\<open>struct coord\<close>; the model passes the coordinate made of the four numbers.

  The state of the whole machine: the static variables of gcode.c, and the states of the
  planner, the endstops, the heaters and the part fan. The text M114 prints is not
  modelled.
\<close>

record machine =
  s_coord_mode :: gcode_mode_t
  s_pos_x :: real
  s_pos_y :: real
  s_pos_z :: real
  s_pos_e :: real
  s_feedrate :: real
  mc_toolhead :: toolhead
  mc_endstops :: endstops
  mc_heater :: heater_module
  mc_fan_part :: real

text \<open>
  What the hardware feeds an execution: the hotend ADC sample read by a heater query, and
  the endstop samples of each scheduler call of a homing loop.
\<close>

record hw_input =
  hw_adc :: "heater_id \<Rightarrow> int"
  hw_polls :: "nat \<Rightarrow> (endstop_id \<Rightarrow> bool) list"

text \<open>The part fan, as far as M106 and M107 set it (\<^verbatim>\<open>fan_set_speed\<close> clamps to 0..1).\<close>

definition fan_set_speed :: "real \<Rightarrow> machine \<Rightarrow> machine" where
  "fan_set_speed speed mc =
     mc\<lparr>mc_fan_part := (if speed < 0 then 0 else if speed > 1 then 1 else speed)\<rparr>"

text \<open>The target and the speed \<^verbatim>\<open>execute_g0_g1\<close> computes before it calls the planner.\<close>

definition g0_g1_target :: "gcode_cmd \<Rightarrow> machine \<Rightarrow> coord" where
  "g0_g1_target p_cmd mc =
     (let cur = toolhead_get_position (mc_toolhead mc)
      in if s_coord_mode mc = GCODE_MODE_ABSOLUTE then
           \<lparr>co_x = (if has_x p_cmd then gc_x p_cmd else co_x cur),
            co_y = (if has_y p_cmd then gc_y p_cmd else co_y cur),
            co_z = (if has_z p_cmd then gc_z p_cmd else co_z cur),
            co_e = (if has_e p_cmd then gc_e p_cmd else co_e cur)\<rparr>
         else
           \<lparr>co_x = (if has_x p_cmd then co_x cur + gc_x p_cmd else co_x cur),
            co_y = (if has_y p_cmd then co_y cur + gc_y p_cmd else co_y cur),
            co_z = (if has_z p_cmd then co_z cur + gc_z p_cmd else co_z cur),
            co_e = (if has_e p_cmd then co_e cur + gc_e p_cmd else co_e cur)\<rparr>)"

definition g0_g1_feedrate :: "gcode_cmd \<Rightarrow> machine \<Rightarrow> real" where
  "g0_g1_feedrate p_cmd mc = (if has_f p_cmd then gc_f p_cmd else s_feedrate mc)"

text \<open>
  \<^verbatim>\<open>execute_g0_g1\<close>. The return value of \<^verbatim>\<open>toolhead_move\<close> is dropped, the position
  copy of gcode.c is set to the target in every case, and 0 is returned.
\<close>

definition execute_g0_g1 :: "gcode_cmd \<Rightarrow> machine \<Rightarrow> int \<times> machine" where
  "execute_g0_g1 p_cmd mc =
     (let target = g0_g1_target p_cmd mc;
          feed = g0_g1_feedrate p_cmd mc;
          speed = feed / 60;
          th' = snd (toolhead_move target speed (mc_toolhead mc))
      in (0, mc\<lparr>s_feedrate := feed, mc_toolhead := th',
                 s_pos_x := co_x target, s_pos_y := co_y target,
                 s_pos_z := co_z target, s_pos_e := co_e target\<rparr>))"

definition g28_axes_mask :: "gcode_cmd \<Rightarrow> 8 word" where
  "g28_axes_mask p_cmd =
     (let m = (if has_x p_cmd then AXIS_X_MASK else 0) OR (if has_y p_cmd then AXIS_Y_MASK else 0)
              OR (if has_z p_cmd then AXIS_Z_MASK else 0)
      in if m = 0 then AXIS_X_MASK OR AXIS_Y_MASK OR AXIS_Z_MASK else m)"

text \<open>\<^verbatim>\<open>execute_g28\<close>; \<open>None\<close> when \<^verbatim>\<open>toolhead_home\<close> does not return.\<close>

definition execute_g28 :: "hw_input \<Rightarrow> gcode_cmd \<Rightarrow> machine \<Rightarrow> (int \<times> machine) option" where
  "execute_g28 hw p_cmd mc =
     (let axes_mask = g28_axes_mask p_cmd
      in case toolhead_home (hw_polls hw) axes_mask (mc_toolhead mc, mc_endstops mc) of
           None \<Rightarrow> None
         | Some (r, th', es') \<Rightarrow>
             Some (0, mc\<lparr>mc_toolhead := th', mc_endstops := es',
                         s_pos_x := (if axis_selected axes_mask ENDSTOP_X then 0 else s_pos_x mc),
                         s_pos_y := (if axis_selected axes_mask ENDSTOP_Y then 0 else s_pos_y mc),
                         s_pos_z := (if axis_selected axes_mask ENDSTOP_Z then 0 else s_pos_z mc)\<rparr>))"

definition execute_m104 :: "gcode_cmd \<Rightarrow> machine \<Rightarrow> int \<times> machine" where
  "execute_m104 p_cmd mc =
     (0, if has_s p_cmd
         then mc\<lparr>mc_heater := heater_set_temp HEATER_HOTEND (gc_s p_cmd) (mc_heater mc)\<rparr>
         else mc)"

text \<open>
  \<^verbatim>\<open>execute_m109\<close>. The body of its loop is a \<^verbatim>\<open>break\<close>: the condition
  \<^verbatim>\<open>!heater_is_at_target(HEATER_HOTEND)\<close> is evaluated once (which reads the ADC and
  stores the temperature) and the function returns 0 whatever the answer.
\<close>

definition execute_m109 :: "hw_input \<Rightarrow> gcode_cmd \<Rightarrow> machine \<Rightarrow> int \<times> machine" where
  "execute_m109 hw p_cmd mc =
     (let h1 = (if has_s p_cmd then heater_set_temp HEATER_HOTEND (gc_s p_cmd) (mc_heater mc)
                else mc_heater mc);
          (at_target, h2) = heater_is_at_target HEATER_HOTEND (hw_adc hw HEATER_HOTEND) h1
      in (0, mc\<lparr>mc_heater := h2\<rparr>))"

definition execute_m106 :: "gcode_cmd \<Rightarrow> machine \<Rightarrow> int \<times> machine" where
  "execute_m106 p_cmd mc =
     (let speed = (if has_s p_cmd
                   then (let v = gc_s p_cmd / 255 in if v > 1 then 1 else if v < 0 then 0 else v)
                   else 1)
      in (0, fan_set_speed speed mc))"

definition execute_m107 :: "machine \<Rightarrow> int \<times> machine" where
  "execute_m107 mc = (0, fan_set_speed 0 mc)"

definition execute_m114 :: "machine \<Rightarrow> int \<times> machine" where
  "execute_m114 mc = (0, mc)"

definition gcode_execute :: "hw_input \<Rightarrow> gcode_cmd \<Rightarrow> machine \<Rightarrow> (int \<times> machine) option" where
  "gcode_execute hw p_cmd mc =
     (if gc_cmd p_cmd = CHR ''G'' then
        (if gc_code p_cmd = 0 \<or> gc_code p_cmd = 1 then Some (execute_g0_g1 p_cmd mc)
         else if gc_code p_cmd = 28 then execute_g28 hw p_cmd mc
         else if gc_code p_cmd = 90 then Some (0, mc\<lparr>s_coord_mode := GCODE_MODE_ABSOLUTE\<rparr>)
         else if gc_code p_cmd = 91 then Some (0, mc\<lparr>s_coord_mode := GCODE_MODE_RELATIVE\<rparr>)
         else Some (GCODE_ERR_UNKNOWN, mc))
      else if gc_cmd p_cmd = CHR ''M'' then
        (if gc_code p_cmd = 104 then Some (execute_m104 p_cmd mc)
         else if gc_code p_cmd = 109 then Some (execute_m109 hw p_cmd mc)
         else if gc_code p_cmd = 106 then Some (execute_m106 p_cmd mc)
         else if gc_code p_cmd = 107 then Some (execute_m107 mc)
         else if gc_code p_cmd = 114 then Some (execute_m114 mc)
         else Some (GCODE_ERR_UNKNOWN, mc))
      else Some (GCODE_ERR_UNKNOWN, mc))"

text \<open>
  \<^verbatim>\<open>gcode_process\<close> for a line that has been read: the message handed to
  \<^verbatim>\<open>gcode_respond\<close> and the machine afterwards; \<open>None\<close> when the execution does not
  return.
\<close>

definition gcode_process :: "hw_input \<Rightarrow> string \<Rightarrow> machine \<Rightarrow> (string \<times> machine) option" where
  "gcode_process hw line mc =
     (case gcode_parse_line line of (ret, p_cmd) \<Rightarrow>
        if ret = GCODE_OK then
          (case gcode_execute hw p_cmd mc of
             None \<Rightarrow> None
           | Some (r, mc') \<Rightarrow>
               Some (if r = GCODE_OK then ''ok'' else ''error: execution failed'', mc'))
        else if ret = GCODE_ERR_EMPTY \<or> ret = GCODE_ERR_COMMENT then Some (''ok'', mc)
        else if ret = GCODE_ERR_UNKNOWN then Some (''error: unknown command'', mc)
        else if ret = GCODE_ERR_INVALID then Some (''error: invalid command'', mc)
        else Some (''error: parse error'', mc))"

text \<open>The machine after the initialisation calls of the main program.\<close>

definition endstop_boot :: endstops where
  "endstop_boot = (\<lambda>_. \<lparr>es_configured = False, es_triggered = False, es_homing = False,
                         es_callback = False\<rparr>)"

definition machine_init :: machine where
  "machine_init =
     \<lparr>s_coord_mode = GCODE_MODE_ABSOLUTE, s_pos_x = 0, s_pos_y = 0, s_pos_z = 0, s_pos_e = 0,
      s_feedrate = 3000, mc_toolhead = toolhead_init toolhead_boot, mc_endstops = endstop_boot,
      mc_heater = heater_init heater_boot, mc_fan_part = 0\<rparr>"

subsection \<open>Scenarios used by the theorems\<close>

text \<open>A series of moves at one speed, each return value dropped.\<close>

fun toolhead_moves :: "coord list \<Rightarrow> real \<Rightarrow> toolhead \<Rightarrow> toolhead" where
  "toolhead_moves [] speed st = st"
| "toolhead_moves (p # ps) speed st = toolhead_moves ps speed (snd (toolhead_move p speed st))"

definition along_x :: "real \<Rightarrow> coord" where
  "along_x k = \<lparr>co_x = k, co_y = 0, co_z = 0, co_e = 0\<rparr>"

text \<open>
  What the planner has handed to the queue: of each resolved move its start and end
  velocity, and of each segment in the active list of the queue its start velocity.
\<close>

definition planner_trace :: "toolhead \<Rightarrow> (real \<times> real) list \<times> real list" where
  "planner_trace st =
     (map (\<lambda>m. (lm_start_v m, lm_end_v m)) (s_emitted st),
      case s_p_trapq st of None \<Rightarrow> [] | Some tq \<Rightarrow> map mv_start_v (moves tq))"

text \<open>
  Fourteen moves of 1 mm along X at 65 mm/s (G1 F3900) from the initial state, then
  \<^verbatim>\<open>toolhead_wait_moves\<close>.
\<close>

definition straight_run :: toolhead where
  "straight_run =
     toolhead_wait_moves
       (toolhead_moves (map along_x [1, 2, 3, 4, 5, 6, 7, 8, 9, 10, 11, 12, 13, 14]) 65
          (toolhead_init toolhead_boot))"

text \<open>One move of 7.5 mm along X at 200 mm/s from the initial state, then flushed.\<close>

definition short_move_run :: toolhead where
  "short_move_run =
     toolhead_wait_moves (snd (toolhead_move (along_x (15 / 2)) 200 (toolhead_init toolhead_boot)))"

text \<open>
  The distance the queue's position function gives for each segment of the active list at
  the end of the segment, beside the planned distance of the move it came from.
\<close>

definition closure_trace :: "toolhead \<Rightarrow> real list \<times> real list" where
  "closure_trace st =
     (case s_p_trapq st of
        None \<Rightarrow> []
      | Some tq \<Rightarrow> map (\<lambda>m. move_get_distance m (mv_move_t m)) (moves tq),
      map lm_distance (s_emitted st))"

text \<open>
  Predicates of the homing proof: the endstops never read as triggered, and the state in
  which the waiting loop keeps waiting.
\<close>

definition home_waiting :: "8 word \<Rightarrow> real \<Rightarrow> toolhead \<times> endstops \<Rightarrow> bool" where
  "home_waiting axes_mask timeout_time s =
     (\<not> hc_triggered (s_home_ctx (fst s)) \<and> s_print_time (fst s) < timeout_time \<and>
      (\<forall>i. axis_selected axes_mask i \<longrightarrow> \<not> es_triggered (snd s i)))"

text \<open>
  Five fields of the planner state that flushing and draining never write, compared
  between two states.
\<close>

definition same_frame :: "toolhead \<Rightarrow> toolhead \<Rightarrow> bool" where
  "same_frame a b =
     (s_commanded_pos a = s_commanded_pos b \<and> s_home_ctx a = s_home_ctx b \<and>
      s_min_pos a = s_min_pos b \<and> s_max_pos a = s_max_pos b \<and> s_config a = s_config b)"

text \<open>
  Hardware input for the examples: the hotend thermistor reads 20 degrees (ADC 2918) and
  every endstop sample finds every switch open.
\<close>

definition hw_idle :: hw_input where
  "hw_idle = \<lparr>hw_adc = (\<lambda>_. 2918), hw_polls = (\<lambda>_. [\<lambda>_. False])\<rparr>"

definition endstops_configured :: endstops where
  "endstops_configured = (\<lambda>_. \<lparr>es_configured = True, es_triggered = False, es_homing = False,
                                  es_callback = False\<rparr>)"

section \<open>Properties of the heater\<close>

subsection \<open>NTC conversion\<close>

lemma ntc_table_first: "fst (hd s_ntc_table) = 23"
  by (simp add: s_ntc_table_def)

lemma ntc_table_last: "fst (last s_ntc_table) = 3244" "snd (last s_ntc_table) = - 200"
  by (simp_all add: s_ntc_table_def)

text \<open>
  C6, as the code has it. A reading outside 0..4095 gives the invalid sentinel. A valid
  reading below the first table entry (ADC 23) gives \<^verbatim>\<open>HEATER_TEMP_MAX\<close>, 300 degrees,
  which is also the temperature of that entry. A valid reading above the last table entry
  (ADC 3244) gives \<^verbatim>\<open>HEATER_TEMP_MIN\<close>, 0 degrees, and not the -20 degrees of that entry.
\<close>

theorem ntc_adc_to_temp_boundaries:
  "(adc_value < 0 \<or> adc_value > 4095 \<longrightarrow> ntc_adc_to_temp adc_value = HEATER_TEMP_INVALID) \<and>
   (0 \<le> adc_value \<and> adc_value < fst (hd s_ntc_table) \<longrightarrow>
      ntc_adc_to_temp adc_value = 300 \<and>
      ntc_adc_to_temp adc_value = real_of_int (snd (hd s_ntc_table)) / 10) \<and>
   (fst (last s_ntc_table) < adc_value \<and> adc_value \<le> 4095 \<longrightarrow>
      ntc_adc_to_temp adc_value = 0)"
  by (simp add: ntc_adc_to_temp_def ntc_table_first ntc_table_last ADC_MAX_VALUE_def
        HEATER_TEMP_MAX_def HEATER_TEMP_MIN_def)
     (simp add: s_ntc_table_def)

theorem ntc_adc_to_temp_boundaries_witness:
  "ntc_adc_to_temp (- 1) = HEATER_TEMP_INVALID \<and> ntc_adc_to_temp 4096 = HEATER_TEMP_INVALID \<and>
   ntc_adc_to_temp 10 = 300 \<and> ntc_adc_to_temp 4000 = 0"
  using ntc_adc_to_temp_boundaries [of "- 1"] ntc_adc_to_temp_boundaries [of 4096]
    ntc_adc_to_temp_boundaries [of 10] ntc_adc_to_temp_boundaries [of 4000]
  by (simp add: ntc_table_first ntc_table_last)

text \<open>
  C6 as stated fails at the cold end: ADC 4000 lies above the last table entry and inside
  0..4095, the temperature of that entry is -20 degrees, and the conversion returns 0.
\<close>

theorem ntc_cold_end_counterexample:
  "fst (last s_ntc_table) < 4000 \<and> (4000 :: int) \<le> 4095 \<and>
   real_of_int (snd (last s_ntc_table)) / 10 = - 20 \<and>
   ntc_adc_to_temp 4000 \<noteq> real_of_int (snd (last s_ntc_table)) / 10"
  by (simp add: ntc_adc_to_temp_def ntc_table_first ntc_table_last ADC_MAX_VALUE_def
        HEATER_TEMP_MAX_def HEATER_TEMP_MIN_def)

subsection \<open>Range of the conversion\<close>

lemma interp_between:
  fixes tl th :: int
  assumes "al \<le> a" "a \<le> ah" "al < ah" "L \<le> real_of_int tl" "real_of_int tl \<le> H"
    "L \<le> real_of_int th" "real_of_int th \<le> H"
  shows "L \<le> real_of_int tl + real_of_int (a - al) / real_of_int (ah - al) * real_of_int (th - tl)"
    and "real_of_int tl + real_of_int (a - al) / real_of_int (ah - al) * real_of_int (th - tl) \<le> H"
proof -
  define r where "r = real_of_int (a - al) / real_of_int (ah - al)"
  have r0: "0 \<le> r" using assms by (simp add: r_def)
  have r1: "r \<le> 1" using assms by (simp add: r_def)
  have eq: "real_of_int tl + r * real_of_int (th - tl) = (1 - r) * real_of_int tl + r * real_of_int th"
    by (simp add: algebra_simps)
  have "L = (1 - r) * L + r * L" by (simp add: algebra_simps)
  also have "\<dots> \<le> (1 - r) * real_of_int tl + r * real_of_int th"
    using r0 r1 assms by (intro add_mono mult_left_mono) auto
  finally show "L \<le> real_of_int tl + real_of_int (a - al) / real_of_int (ah - al) * real_of_int (th - tl)"
    using eq by (simp add: r_def)
  have "(1 - r) * real_of_int tl + r * real_of_int th \<le> (1 - r) * H + r * H"
    using r0 r1 assms by (intro add_mono mult_left_mono) auto
  also have "\<dots> = H" by (simp add: algebra_simps)
  finally show "real_of_int tl + real_of_int (a - al) / real_of_int (ah - al) * real_of_int (th - tl) \<le> H"
    using eq by (simp add: r_def)
qed

lemma ntc_search_range:
  "table_ok L H tab \<Longrightarrow> ntc_search tab adc_value = HEATER_TEMP_INVALID \<or>
     (L / 10 \<le> ntc_search tab adc_value \<and> ntc_search tab adc_value \<le> H / 10)"
proof (induction tab adc_value rule: ntc_search.induct)
  case (1 adc_low temp_low adc_high temp_high rest adc_value)
  show ?case
  proof (cases "adc_value \<ge> adc_low \<and> adc_value \<le> adc_high")
    case True
    have ok: "adc_low < adc_high" "L \<le> real_of_int temp_low" "real_of_int temp_low \<le> H"
      using "1.prems" by auto
    have ok2: "L \<le> real_of_int temp_high" "real_of_int temp_high \<le> H"
      using "1.prems" by (cases rest; auto)+
    define v where "v = real_of_int temp_low +
       real_of_int (adc_value - adc_low) / real_of_int (adc_high - adc_low) * real_of_int (temp_high - temp_low)"
    have "L \<le> v" "v \<le> H"
      unfolding v_def using interp_between[OF _ _ ok(1) ok(2,3) ok2, of adc_value] True by blast+
    then have "L / 10 \<le> v / 10 \<and> v / 10 \<le> H / 10" by simp
    moreover have "ntc_search ((adc_low, temp_low) # (adc_high, temp_high) # rest) adc_value = v / 10"
      using True by (simp add: Let_def v_def)
    ultimately show ?thesis by simp
  next
    case False
    then show ?thesis using 1 by auto
  qed
qed (auto)

lemma s_ntc_table_ok: "table_ok (- 200) 3000 s_ntc_table"
  by (simp add: s_ntc_table_def)

lemma ntc_adc_to_temp_range:
  "ntc_adc_to_temp adc_value \<noteq> HEATER_TEMP_INVALID \<Longrightarrow>
     - 20 \<le> ntc_adc_to_temp adc_value \<and> ntc_adc_to_temp adc_value \<le> 300"
  using ntc_search_range[OF s_ntc_table_ok, of adc_value]
  by (auto simp add: ntc_adc_to_temp_def HEATER_TEMP_MAX_def HEATER_TEMP_MIN_def)

subsection \<open>PID bounds\<close>

lemma pid_update_bounds:
  assumes "\<bar>target_temp st - cur\<bar> \<le> 1000" "\<bar>integral st\<bar> \<le> 100"
  shows "0 \<le> fst (pid_update st p cur PID_DT) \<and> fst (pid_update st p cur PID_DT) \<le> 1 \<and>
         \<bar>integral (snd (pid_update st p cur PID_DT))\<bar> \<le> 100 \<and>
         output_duty (snd (pid_update st p cur PID_DT)) = fst (pid_update st p cur PID_DT) \<and>
         target_temp (snd (pid_update st p cur PID_DT)) = target_temp st"
  using assms
  by (auto simp add: pid_update_def Let_def PID_DT_def PID_INTEGRAL_MAX_def)

lemma heater_set_pwm_state: "s_heater_state (heater_set_pwm hid d m) = s_heater_state m"
  by (simp add: heater_set_pwm_def Let_def)

lemma hinv_init: "hinv m \<Longrightarrow> hinv (heater_init m)"
  by (simp add: hinv_def heater_init_def heater_state_zero_def)

lemma heater_set_temp_other:
  "h \<noteq> hid \<Longrightarrow> s_heater_state (heater_set_temp hid t m) h = s_heater_state m h"
  by (simp add: heater_set_temp_def Let_def heater_set_pwm_state)

lemma heater_set_temp_target:
  "target_temp (s_heater_state (heater_set_temp hid t m) hid) =
     (if t < 0 then 0 else if t > 300 then 300 else t)"
  by (simp add: heater_set_temp_def Let_def heater_set_pwm_state HEATER_TEMP_MIN_def HEATER_TEMP_MAX_def)

lemma heater_set_temp_integral:
  "integral (s_heater_state (heater_set_temp hid t m) hid) = 0 \<or>
   integral (s_heater_state (heater_set_temp hid t m) hid) = integral (s_heater_state m hid)"
  by (simp add: heater_set_temp_def Let_def heater_set_pwm_state)

lemma heater_set_temp_output:
  "output_duty (s_heater_state (heater_set_temp hid t m) hid) = 0 \<or>
   output_duty (s_heater_state (heater_set_temp hid t m) hid) = output_duty (s_heater_state m hid)"
  by (simp add: heater_set_temp_def Let_def heater_set_pwm_state)

lemma hinv_set_temp:
  assumes "hinv m"
  shows "hinv (heater_set_temp hid t m)"
  unfolding hinv_def
proof
  fix h
  show "0 \<le> target_temp (s_heater_state (heater_set_temp hid t m) h) \<and>
        target_temp (s_heater_state (heater_set_temp hid t m) h) \<le> 300 \<and>
        \<bar>integral (s_heater_state (heater_set_temp hid t m) h)\<bar> \<le> 100 \<and>
        0 \<le> output_duty (s_heater_state (heater_set_temp hid t m) h) \<and>
        output_duty (s_heater_state (heater_set_temp hid t m) h) \<le> 1"
  proof (cases "h = hid")
    case False
    then show ?thesis using assms by (simp add: heater_set_temp_other hinv_def)
  next
    case True
    have old: "\<bar>integral (s_heater_state m hid)\<bar> \<le> 100" "0 \<le> output_duty (s_heater_state m hid)"
      "output_duty (s_heater_state m hid) \<le> 1" using assms by (simp_all add: hinv_def)
    have i: "\<bar>integral (s_heater_state (heater_set_temp hid t m) hid)\<bar> \<le> 100"
      using heater_set_temp_integral[of hid t m] old by auto
    have o: "0 \<le> output_duty (s_heater_state (heater_set_temp hid t m) hid) \<and>
             output_duty (s_heater_state (heater_set_temp hid t m) hid) \<le> 1"
      using heater_set_temp_output[of hid t m] old by auto
    show ?thesis using True i o by (simp add: heater_set_temp_target)
  qed
qed

lemma hinv_get_temp: "hinv m \<Longrightarrow> hinv (snd (heater_get_temp hid a m))"
  using hinv_init[of m]
  by (auto simp add: hinv_def heater_get_temp_def Let_def)

lemma hinv_at_target: "hinv m \<Longrightarrow> hinv (snd (heater_is_at_target hid a m))"
  using hinv_get_temp[of m hid a]
  by (auto simp add: heater_is_at_target_def Let_def split: prod.splits)

lemma heater_get_temp_value:
  "fst (heater_get_temp hid a m) = HEATER_TEMP_INVALID \<or>
   (- 20 \<le> fst (heater_get_temp hid a m) \<and> fst (heater_get_temp hid a m) \<le> 300)"
  using ntc_adc_to_temp_range[of a]
  by (auto simp add: heater_get_temp_def Let_def)

lemma hinv_task_one:
  assumes "hinv m"
  shows "hinv (heater_task_one hid a m)"
proof -
  obtain cur m1 where g: "heater_get_temp hid a m = (cur, m1)"
    by (cases "heater_get_temp hid a m")
  have i1: "hinv m1" using hinv_get_temp[OF assms, of hid a] g by simp
  have cv: "cur = HEATER_TEMP_INVALID \<or> (- 20 \<le> cur \<and> cur \<le> 300)"
    using heater_get_temp_value[of hid a m] g by simp
  show ?thesis
  proof (cases "cur = HEATER_TEMP_INVALID")
    case True
    then show ?thesis using i1 g by (simp add: heater_task_one_def hinv_def heater_set_pwm_state)
  next
    case False
    note nv = this
    show ?thesis
    proof (cases "target_temp (s_heater_state m1 hid) \<le> 0")
      case True
      then show ?thesis using i1 g nv by (simp add: heater_task_one_def hinv_def heater_set_pwm_state)
    next
      case False
      have tt: "0 \<le> target_temp (s_heater_state m1 hid) \<and> target_temp (s_heater_state m1 hid) \<le> 300"
        using i1 by (simp add: hinv_def)
      have e: "\<bar>target_temp (s_heater_state m1 hid) - cur\<bar> \<le> 1000"
        using tt cv nv by linarith
      have ii: "\<bar>integral (s_heater_state m1 hid)\<bar> \<le> 100" using i1 by (simp add: hinv_def)
      obtain out st' where p:
        "pid_update (s_heater_state m1 hid) (pid (s_heater_config hid)) cur PID_DT = (out, st')"
        by (cases "pid_update (s_heater_state m1 hid) (pid (s_heater_config hid)) cur PID_DT")
      from pid_update_bounds[OF e ii, of "pid (s_heater_config hid)"] p
      have b: "0 \<le> out" "out \<le> 1" "\<bar>integral st'\<bar> \<le> 100" "output_duty st' = out"
        "target_temp st' = target_temp (s_heater_state m1 hid)" by simp_all
      show ?thesis using i1 g nv False p b
        by (simp add: heater_task_one_def hinv_def heater_set_pwm_state)
    qed
  qed
qed

lemma hinv_task: "hinv m \<Longrightarrow> hinv (heater_task adc m)"
  by (simp add: heater_task_def hinv_task_one)

lemma hinv_reachable: "heater_reachable m \<Longrightarrow> hinv m"
proof (induction rule: heater_reachable.induct)
  case hr_boot
  then show ?case by (simp add: hinv_def heater_boot_def heater_state_zero_def)
qed (simp_all add: hinv_init hinv_set_temp hinv_get_temp hinv_at_target hinv_task)

text \<open>
  C7. In every state the heater module can reach, whatever targets were requested and
  whatever the ADC returned on the way, the integral accumulator is within [-100, 100] and
  the stored output within [0, max_power]; and a PID tick from such a state, on any valid
  temperature reading, returns an output in [0, max_power] and leaves the accumulator
  within [-100, 100].
\<close>

theorem pid_update_output_integral_bounds:
  assumes "heater_reachable m" and "ntc_adc_to_temp adc_value \<noteq> HEATER_TEMP_INVALID"
  shows "0 \<le> fst (pid_update (s_heater_state m hid) (pid (s_heater_config hid))
                     (ntc_adc_to_temp adc_value) PID_DT) \<and>
         fst (pid_update (s_heater_state m hid) (pid (s_heater_config hid))
                (ntc_adc_to_temp adc_value) PID_DT) \<le> max_power (s_heater_config hid) \<and>
         \<bar>integral (snd (pid_update (s_heater_state m hid) (pid (s_heater_config hid))
                           (ntc_adc_to_temp adc_value) PID_DT))\<bar> \<le> 100 \<and>
         \<bar>integral (s_heater_state m hid)\<bar> \<le> 100 \<and>
         0 \<le> output_duty (s_heater_state m hid) \<and>
         output_duty (s_heater_state m hid) \<le> max_power (s_heater_config hid)"
proof -
  have i: "hinv m" using assms(1) by (rule hinv_reachable)
  have tt: "0 \<le> target_temp (s_heater_state m hid) \<and> target_temp (s_heater_state m hid) \<le> 300"
    using i by (simp add: hinv_def)
  have e: "\<bar>target_temp (s_heater_state m hid) - ntc_adc_to_temp adc_value\<bar> \<le> 1000"
    using tt ntc_adc_to_temp_range[OF assms(2)] by linarith
  have ii: "\<bar>integral (s_heater_state m hid)\<bar> \<le> 100" using i by (simp add: hinv_def)
  have oo: "0 \<le> output_duty (s_heater_state m hid) \<and> output_duty (s_heater_state m hid) \<le> 1"
    using i by (simp add: hinv_def)
  have mp: "max_power (s_heater_config hid) = 1" by (cases hid) simp_all
  show ?thesis
    using pid_update_bounds[OF e ii, of "pid (s_heater_config hid)"] ii oo by (simp add: mp)
qed

theorem pid_update_output_integral_bounds_witness:
  "heater_reachable (heater_task (\<lambda>_. 2918) (heater_set_temp HEATER_HOTEND 200 (heater_init heater_boot))) \<and>
   ntc_adc_to_temp 2918 \<noteq> HEATER_TEMP_INVALID \<and>
   fst (pid_update
          (s_heater_state (heater_task (\<lambda>_. 2918) (heater_set_temp HEATER_HOTEND 200 (heater_init heater_boot)))
             HEATER_HOTEND)
          (pid (s_heater_config HEATER_HOTEND)) (ntc_adc_to_temp 2918) PID_DT) \<le> 1 \<and>
   \<bar>integral (snd (pid_update
          (s_heater_state (heater_task (\<lambda>_. 2918) (heater_set_temp HEATER_HOTEND 200 (heater_init heater_boot)))
             HEATER_HOTEND)
          (pid (s_heater_config HEATER_HOTEND)) (ntc_adc_to_temp 2918) PID_DT))\<bar> \<le> 100"
proof -
  have r: "heater_reachable (heater_task (\<lambda>_. 2918)
             (heater_set_temp HEATER_HOTEND 200 (heater_init heater_boot)))"
    by (intro heater_reachable.intros)
  have v: "ntc_adc_to_temp 2918 \<noteq> HEATER_TEMP_INVALID"
    by (simp add: ntc_adc_to_temp_def s_ntc_table_def ADC_MAX_VALUE_def HEATER_TEMP_INVALID_def)
  show ?thesis
    using r v pid_update_output_integral_bounds [OF r v, of HEATER_HOTEND] by simp
qed

section \<open>Properties of the scheduler\<close>

lemma timer_insert_set: "set (timer_insert t l) = insert t (set l)"
  by (induction l) auto

text \<open>
  C10. When the head timer is due and its callback returns 0, the timer list after the
  turn is the rest of the list: the timer is not registered again, whatever the reason
  for the 0 (the sentinel, or a wake time that wrapped to 0). When the callback returns a
  nonzero value, the timer is inserted again with that value as its wake time.
\<close>

theorem sched_main_zero_is_sentinel:
  assumes "func timer = Some f" and "sched_is_before now (waketime timer)"
    and "tid timer \<notin> tid ` set rest"
  shows "(f (waketime timer) = 0 \<longrightarrow>
            sched_main_turn now (timer # rest) = Some rest \<and>
            tid timer \<notin> tid ` set (the (sched_main_turn now (timer # rest)))) \<and>
         (f (waketime timer) \<noteq> 0 \<longrightarrow>
            sched_main_turn now (timer # rest) =
              Some (sched_add_timer (timer\<lparr>waketime := f (waketime timer)\<rparr>) rest) \<and>
            set (the (sched_main_turn now (timer # rest))) =
              insert (timer\<lparr>waketime := f (waketime timer)\<rparr>) (set rest))"
  using assms
  by (simp add: sched_main_turn_def sched_add_timer_def Let_def timer_insert_set)

text \<open>
  The witness runs the endstop sampling callback (wake time plus 1000) twice: from wake
  time \<open>2\<^sup>3\<^sup>2 - 1000\<close> the next wake time wraps to 0 and the timer is dropped; from wake time
  5 it is 1005 and the timer is registered again.
\<close>

theorem sched_main_zero_is_sentinel_witness:
  "endstop_timer_callback_time 0xFFFFFC18 = 0 \<and>
   sched_main_turn 0xFFFFFC20
     [\<lparr>tid = 1, waketime = 0xFFFFFC18, func = Some endstop_timer_callback_time\<rparr>] = Some [] \<and>
   sched_main_turn 10
     [\<lparr>tid = 1, waketime = 5, func = Some endstop_timer_callback_time\<rparr>] =
     Some [\<lparr>tid = 1, waketime = 1005, func = Some endstop_timer_callback_time\<rparr>]"
proof -
  have z: "endstop_timer_callback_time 0xFFFFFC18 = 0"
    by (simp add: endstop_timer_callback_time_def ENDSTOP_SAMPLE_INTERVAL_def)
  have n: "endstop_timer_callback_time 5 = 1005"
    by (simp add: endstop_timer_callback_time_def ENDSTOP_SAMPLE_INTERVAL_def)
  have d1: "sched_is_before 0xFFFFFC20 0xFFFFFC18"
    by (simp add: sched_is_before_def sched_time_diff_def)
  have d2: "sched_is_before 10 5"
    by (simp add: sched_is_before_def sched_time_diff_def)
  show ?thesis
    using z n
      sched_main_zero_is_sentinel [of "\<lparr>tid = 1, waketime = 0xFFFFFC18,
        func = Some endstop_timer_callback_time\<rparr>" endstop_timer_callback_time "0xFFFFFC20" "[]"]
      sched_main_zero_is_sentinel [of "\<lparr>tid = 1, waketime = 5,
        func = Some endstop_timer_callback_time\<rparr>" endstop_timer_callback_time 10 "[]"]
      d1 d2
    by (simp add: sched_add_timer_def)
qed

section \<open>Properties of the planner and the queue\<close>

subsection \<open>Evaluation lemmas\<close>

lemma toolhead_init_boot:
  "toolhead_init toolhead_boot =
     \<lparr>s_current_pos = coord_zero, s_commanded_pos = coord_zero,
      s_p_trapq = Some \<lparr>moves = [], history = []\<rparr>,
      th_move_pool_used = replicate 32 False, s_print_time = 0,
      s_config = \<lparr>max_velocity = 200, max_accel = 3000, max_accel_to_decel = 1500,
                  square_corner_velocity = 5\<rparr>,
      s_initialized = True,
      s_lookahead = replicate 16 lookahead_move_zero,
      s_lookahead_head = 0, s_lookahead_tail = 0, s_lookahead_count = 0,
      s_home_ctx = \<lparr>hc_state = HOME_STATE_IDLE, hc_axis_mask = 0, hc_start_time = 0,
                    hc_triggered = False\<rparr>,
      s_min_pos = [0, 0, 0, - (10 ^ 9)], s_max_pos = [220, 220, 250, 10 ^ 9], s_emitted = []\<rparr>"
  by (simp add: toolhead_init_def toolhead_boot_def trapq_pool_init_def trapq_alloc_def
        config_init_defaults_def TRAPQ_MAX_MOVES_def LOOKAHEAD_SIZE_def)

lemma replicate_16: "replicate 16 z = [z, z, z, z, z, z, z, z, z, z, z, z, z, z, z, z]"
  by (simp add: numeral_eq_Suc)

lemma replicate_32:
  "replicate 32 z = [z, z, z, z, z, z, z, z, z, z, z, z, z, z, z, z,
                     z, z, z, z, z, z, z, z, z, z, z, z, z, z, z, z]"
  by (simp add: numeral_eq_Suc)

lemma lookahead_process_unfold:
  "lookahead_process st =
     (if s_lookahead_count st = 0 then st
      else st\<lparr>s_lookahead :=
        lookahead_forward (s_config st) (s_lookahead_count st) (s_lookahead_head st) 0
          (lookahead_reverse (s_config st) (s_lookahead_count st - 1)
             ((s_lookahead_tail st + LOOKAHEAD_SIZE - 1) mod LOOKAHEAD_SIZE)
             ((s_lookahead st)[(s_lookahead_tail st + LOOKAHEAD_SIZE - 1) mod LOOKAHEAD_SIZE :=
                 (s_lookahead st ! ((s_lookahead_tail st + LOOKAHEAD_SIZE - 1) mod LOOKAHEAD_SIZE))
                   \<lparr>lm_max_end_v := 0\<rparr>]))\<rparr>)"
  by (simp add: lookahead_process_def Let_def)

lemma sqrt_facts:
  "65 < sqrt 6000" "65 < sqrt 10225" "35 < sqrt (7225 / 2)" "\<not> sqrt (7225 / 2) < 35"
  "sqrt 1225 = 35" "sqrt 7225 = 85"
proof -
  show "65 < sqrt 6000" by (rule real_less_rsqrt) simp
  show "65 < sqrt 10225" by (rule real_less_rsqrt) simp
  show a: "35 < sqrt (7225 / 2)" by (rule real_less_rsqrt) simp
  show "\<not> sqrt (7225 / 2) < 35" using a by simp
  show "sqrt 1225 = 35" by (rule real_sqrt_unique) simp_all
  show "sqrt 7225 = 85" by (rule real_sqrt_unique) simp_all
qed

lemma sqrt_facts_short:
  "sqrt (225 / 4) = 15 / 2" "200 < sqrt 45000" "sqrt 22500 = 150" "sqrt 225 = 15"
proof -
  show "sqrt (225 / 4) = 15 / 2" by (rule real_sqrt_unique) (simp_all add: power2_eq_square)
  show "200 < sqrt 45000" by (rule real_less_rsqrt) simp
  show "sqrt 22500 = 150" by (rule real_sqrt_unique) simp_all
  show "sqrt 225 = 15" by (rule real_sqrt_unique) simp_all
qed

lemmas planner_eval =
  lookahead_process_unfold LOOKAHEAD_SIZE_def lookahead_reverse_step_def [unfolded Let_def]
  lookahead_forward_step_def [unfolded Let_def] cartesian_calc_direction_def [unfolded Let_def]
  calc_junction_velocity_def [unfolded Let_def]

lemmas emit_eval =
  lookahead_pop_def emit_move_def calc_trapezoidal_profile_def LOOKAHEAD_SIZE_def
  cartesian_calc_direction_def trapq_append_def move_alloc_def Let_def

lemmas move_eval =
  toolhead_init_boot replicate_16 replicate_32 along_x_def toolhead_move_def
  calc_move_distance_def coord_zero_def MIN_MOVE_DISTANCE_def Let_def lookahead_push_def
  LOOKAHEAD_SIZE_def TOOLHEAD_OK_def

subsection \<open>Profile closure\<close>

text \<open>
  Claim C8 (profile closure: for every move the planner enqueues, the stored duration is
  the sum of the three phase times and the distance function of the queue, evaluated at
  the full duration, gives the distance of the move). The code does not keep the second
  half. One move of 7.5 mm along X at 200 mm/s from the initial state cannot reach
  200 mm/s at the acceleration 3000: \<^verbatim>\<open>calc_trapezoidal_profile\<close> takes its triangle branch and
  computes the phase times for the peak velocity 150 mm/s, but the segment handed to
  \<^verbatim>\<open>trapq_append\<close> carries the cruise velocity 200 mm/s, which
  \<^verbatim>\<open>move_get_distance\<close> uses in the deceleration phase. At the end of the segment the
  queue's distance is 10 mm and the planned distance is 7.5 mm.
\<close>

theorem short_move_closure:
  "closure_trace short_move_run = ([10], [15 / 2])"
  apply (simp add: short_move_run_def move_eval sqrt_facts_short)
  apply (simp add: toolhead_wait_moves_def Let_def)
  apply (simp add: planner_eval sqrt_facts_short)
  apply (simp add: lookahead_flush.simps emit_eval sqrt_facts_short)
  apply (simp add: closure_trace_def move_get_distance_def Let_def)
  done

subsection \<open>Velocity continuity\<close>

text \<open>
  Claim C1 (velocity continuity: for every pair of moves adjacent in the queue after
  lookahead resolution, also when they were emitted in different flush batches, the end
  velocity of the earlier equals the start velocity of the later). The code breaks it at
  a batch boundary. Fourteen moves of 1 mm along X at 65 mm/s fill the lookahead queue to
  \<^verbatim>\<open>LOOKAHEAD_SIZE - 2\<close>; \<^verbatim>\<open>toolhead_move\<close> resolves them and emits twelve, the twelfth
  with end velocity 35 mm/s. The two kept moves are resolved again by the next
  \<^verbatim>\<open>lookahead_process\<close>, whose forward pass starts from \<^verbatim>\<open>prev_end_v = 0.0\<close>, so the
  thirteenth move enters the queue with start velocity 0. The first list gives the start
  and end velocity of each emitted move, the second the start velocity of each segment of
  the queue.
\<close>

theorem straight_run_trace:
  "planner_trace straight_run =
     ([(0, 35), (35, 35), (35, 35), (35, 35), (35, 35), (35, 35), (35, 35), (35, 35),
       (35, 35), (35, 35), (35, 35), (35, 35), (0, 35), (35, 0)],
      [0, 35, 35, 35, 35, 35, 35, 35, 35, 35, 35, 35, 0, 35])"
  apply (simp add: straight_run_def move_eval)
  apply (simp add: planner_eval sqrt_facts)
  apply (simp add: lookahead_drain.simps emit_eval sqrt_facts)
  apply (simp add: toolhead_wait_moves_def Let_def)
  apply (simp add: planner_eval sqrt_facts)
  apply (simp add: lookahead_flush.simps emit_eval sqrt_facts)
  apply (simp add: planner_trace_def)
  done

subsection \<open>Queue capacity\<close>





subsection \<open>What the flushing functions leave alone\<close>

lemma same_frame_refl: "same_frame a a"
  by (simp add: same_frame_def)

lemma same_frame_trans: "same_frame a b \<Longrightarrow> same_frame b c \<Longrightarrow> same_frame a c"
  by (simp add: same_frame_def)

lemma emit_move_frame: "same_frame (emit_move mv st) st"
  by (simp add: emit_move_def same_frame_def Let_def split: option.splits prod.splits)

lemma emit_move_trapq: "s_p_trapq (emit_move mv st) = None \<longleftrightarrow> s_p_trapq st = None"
  by (simp add: emit_move_def Let_def split: option.splits prod.splits)

lemma lookahead_pop_frame: "lookahead_pop st = Some (mv, st') \<Longrightarrow> same_frame st' st"
  by (auto simp add: lookahead_pop_def same_frame_def split: if_splits)

lemma lookahead_process_frame: "same_frame (lookahead_process st) st"
  by (simp add: lookahead_process_def same_frame_def Let_def)

lemma lookahead_flush_frame: "same_frame (lookahead_flush st) st"
proof (induction st rule: lookahead_flush.induct)
  case (1 st)
  show ?case
  proof (cases "lookahead_pop st")
    case None
    then show ?thesis by (simp add: lookahead_flush.simps[of st] same_frame_refl)
  next
    case (Some a)
    obtain mv st' where a: "a = (mv, st')" by (cases a)
    have "same_frame (lookahead_flush (emit_move mv st')) (emit_move mv st')"
      using 1 Some a by simp
    then have "same_frame (lookahead_flush (emit_move mv st')) st"
      using emit_move_frame[of mv st'] lookahead_pop_frame[of st mv st'] Some a
      by (blast intro: same_frame_trans)
    then show ?thesis using Some a by (simp add: lookahead_flush.simps[of st])
  qed
qed

lemma lookahead_drain_frame: "same_frame (lookahead_drain st) st"
proof (induction st rule: lookahead_drain.induct)
  case (1 st)
  show ?case
  proof (cases "s_lookahead_count st > 2")
    case False
    then show ?thesis by (simp add: lookahead_drain.simps[of st] same_frame_refl)
  next
    case True
    show ?thesis
    proof (cases "lookahead_pop st")
      case None
      then show ?thesis using True by (simp add: lookahead_drain.simps[of st] same_frame_refl)
    next
      case (Some a)
      obtain mv st' where a: "a = (mv, st')" by (cases a)
      have "same_frame (lookahead_drain (emit_move mv st')) (emit_move mv st')"
        using 1 True Some a by simp
      then have "same_frame (lookahead_drain (emit_move mv st')) st"
        using emit_move_frame[of mv st'] lookahead_pop_frame[of st mv st'] Some a
        by (blast intro: same_frame_trans)
      then show ?thesis using True Some a by (simp add: lookahead_drain.simps[of st])
    qed
  qed
qed


lemma toolhead_flush_frame: "same_frame (toolhead_flush st) st"
  using lookahead_flush_frame[of "lookahead_process st"] lookahead_process_frame[of st]
  by (auto simp add: toolhead_flush_def Let_def same_frame_def split: option.splits prod.splits)



lemma flush_home_ctx:
  "s_home_ctx (lookahead_process st) = s_home_ctx st"
  "s_home_ctx (lookahead_flush st) = s_home_ctx st"
  "s_home_ctx (lookahead_drain st) = s_home_ctx st"
  "s_home_ctx (toolhead_flush st) = s_home_ctx st"
  using lookahead_process_frame[of st] lookahead_flush_frame[of st] lookahead_drain_frame[of st]
    toolhead_flush_frame[of st]
  by (simp_all add: same_frame_def)

lemma toolhead_move_home_ctx: "s_home_ctx (snd (toolhead_move p v st)) = s_home_ctx st"
  by (simp add: toolhead_move_def Let_def lookahead_push_def flush_home_ctx split: prod.splits)

subsection \<open>A failed move\<close>



section \<open>Properties of the G-code layer\<close>

subsection \<open>Evaluating the parser\<close>

lemmas parse_eval =
  gcode_parse_line_def parse_command_def parse_parameters_def parse_parameters_loop.simps
  parse_float_def is_supported_gcode_def store_param_def gcode_cmd_clear_def
  is_digit_def digit_val_def toupper_def Let_def GCODE_OK_def GCODE_ERR_EMPTY_def
  GCODE_ERR_COMMENT_def GCODE_ERR_INVALID_def GCODE_ERR_UNKNOWN_def






subsection \<open>M109\<close>

lemma parse_m109:
  "gcode_parse_line ''M109 S200'' =
     (0, gcode_cmd_clear\<lparr>gc_cmd := CHR ''M'', gc_code := 109, gc_s := 200, has_s := True\<rparr>)"
  by (simp add: parse_eval)

lemma ntc_2918: "ntc_adc_to_temp 2918 = 20"
  by (simp add: ntc_adc_to_temp_def s_ntc_table_def ADC_MAX_VALUE_def)

text \<open>
  Claim C3 (M109 sets the hotend target and returns only when
  \<^verbatim>\<open>heater_is_at_target\<close> holds for the hotend). The waiting loop of \<^verbatim>\<open>execute_m109\<close>
  leaves with \<^verbatim>\<open>break\<close> in its first round. With the thermistor at 20 degrees,
  \<^verbatim>\<open>M109 S200\<close> sets the target to 200, is answered \<^verbatim>\<open>ok\<close>, and the hotend is not at
  its target.
\<close>

theorem m109_returns_before_target:
  "(case gcode_process hw_idle ''M109 S200'' machine_init of
      None \<Rightarrow> False
    | Some (msg, mc') \<Rightarrow>
        msg = ''ok'' \<and>
        target_temp (s_heater_state (mc_heater mc') HEATER_HOTEND) = 200 \<and>
        current_temp (s_heater_state (mc_heater mc') HEATER_HOTEND) = 20 \<and>
        \<not> fst (heater_is_at_target HEATER_HOTEND (hw_adc hw_idle HEATER_HOTEND) (mc_heater mc')))"
  by (simp add: gcode_process_def parse_m109 gcode_execute_def gcode_cmd_clear_def GCODE_OK_def
      execute_m109_def machine_init_def hw_idle_def heater_init_def heater_boot_def
      heater_state_zero_def heater_set_temp_def heater_is_at_target_def heater_get_temp_def
      ntc_2918 Let_def HEATER_TEMP_MIN_def HEATER_TEMP_MAX_def HEATER_TEMP_INVALID_def
      HEATER_TEMP_TOLERANCE_def PID_TARGET_CHANGE_THRESHOLD_def)

subsection \<open>Commands without a code\<close>

lemma parse_code_no_digit: "rest = [] \<or> \<not> is_digit (hd rest) \<Longrightarrow> parse_code n rest = (n, rest)"
  by (cases rest) auto

lemma parse_command_no_code:
  assumes "toupper c = CHR ''G'' \<or> toupper c = CHR ''M''"
    and "c \<noteq> CHR '' ''" "c \<noteq> CHR 0x09"
    and "rest = [] \<or> \<not> is_digit (hd rest)"
  shows "parse_command (c # rest) p_cmd = (GCODE_OK, p_cmd\<lparr>gc_cmd := toupper c, gc_code := 0\<rparr>)"
  using assms by (auto simp add: parse_command_def Let_def parse_code_no_digit)

text \<open>
  Claim C9 (a line whose command letter G or M is followed by no digit is an invalid
  command, answered \<^verbatim>\<open>error: invalid command\<close>). \<^verbatim>\<open>parse_command\<close> starts from
  \<^verbatim>\<open>code = 0\<close> and never checks that its digit loop ran, so the line \<^verbatim>\<open>G\<close> is the
  command G0 and is answered \<^verbatim>\<open>ok\<close>, \<^verbatim>\<open>G X10\<close> is the move \<^verbatim>\<open>G0 X10\<close>, and \<^verbatim>\<open>M\<close>
  is the unsupported command M0, answered \<^verbatim>\<open>error: unknown command\<close>.
\<close>

theorem codeless_command_is_code_zero:
  "gcode_parse_line ''G'' = (GCODE_OK, gcode_cmd_clear\<lparr>gc_cmd := CHR ''G'', gc_code := 0\<rparr>) \<and>
   map_option fst (gcode_process hw_idle ''G'' machine_init) = Some ''ok'' \<and>
   gcode_parse_line ''G X10'' =
     (GCODE_OK, gcode_cmd_clear\<lparr>gc_cmd := CHR ''G'', gc_code := 0, gc_x := 10, has_x := True\<rparr>) \<and>
   fst (gcode_parse_line ''M'') = GCODE_ERR_UNKNOWN \<and>
   map_option fst (gcode_process hw_idle ''M'' machine_init) = Some ''error: unknown command''"
proof -
  have g: "gcode_parse_line ''G'' = (GCODE_OK, gcode_cmd_clear\<lparr>gc_cmd := CHR ''G'', gc_code := 0\<rparr>)"
    by (simp add: parse_eval)
  have gx: "gcode_parse_line ''G X10'' =
     (GCODE_OK, gcode_cmd_clear\<lparr>gc_cmd := CHR ''G'', gc_code := 0, gc_x := 10, has_x := True\<rparr>)"
    by (simp add: parse_eval)
  have m: "fst (gcode_parse_line ''M'') = GCODE_ERR_UNKNOWN"
    by (simp add: parse_eval)
  have pg: "map_option fst (gcode_process hw_idle ''G'' machine_init) = Some ''ok''"
    by (simp add: gcode_process_def g gcode_execute_def execute_g0_g1_def gcode_cmd_clear_def
        GCODE_OK_def Let_def)
  have pm: "map_option fst (gcode_process hw_idle ''M'' machine_init) = Some ''error: unknown command''"
    using m by (cases "gcode_parse_line ''M''")
      (simp add: gcode_process_def GCODE_OK_def GCODE_ERR_UNKNOWN_def GCODE_ERR_EMPTY_def
        GCODE_ERR_COMMENT_def)
  show ?thesis using g gx m pg pm by simp
qed


section \<open>Properties of homing\<close>

subsection \<open>Homing without a trigger\<close>

lemma sample_one_quiet:
  assumes "\<not> level i"
  shows "fst (endstop_sample_one level i s) = fst s"
    and "\<not> es_triggered (snd s j) \<Longrightarrow> \<not> es_triggered (snd (endstop_sample_one level i s) j)"
  using assms by (cases s; simp add: endstop_sample_one_def)+

lemma timer_callback_quiet:
  assumes "\<And>i. \<not> level i"
  shows "fst (endstop_timer_callback level s) = fst s"
    and "\<not> es_triggered (snd s j) \<Longrightarrow> \<not> es_triggered (snd (endstop_timer_callback level s) j)"
  using assms by (simp_all add: endstop_timer_callback_def sample_one_quiet)

lemma samples_quiet:
  assumes "list_all (\<lambda>level. \<forall>i. \<not> level i) samples"
  shows "fst (sched_main_samples samples s) = fst s \<and>
         (\<not> es_triggered (snd s j) \<longrightarrow> \<not> es_triggered (snd (sched_main_samples samples s) j))"
  using assms unfolding sched_main_samples_def
proof (induction samples arbitrary: s)
  case Nil
  then show ?case by simp
next
  case (Cons a samples)
  have q: "\<And>i. \<not> a i" using Cons.prems by simp
  have r: "list_all (\<lambda>level. \<forall>i. \<not> level i) samples" using Cons.prems by simp
  show ?case
    using Cons.IH[OF r, of "endstop_timer_callback a s"]
      timer_callback_quiet(1)[of a s, OF q] timer_callback_quiet(2)[of a s j, OF q]
    by auto
qed

lemma check_one_quiet:
  assumes "\<not> (axis_selected axes_mask i \<and> es_triggered (snd s i))"
  shows "home_check_one axes_mask i s = s"
  using assms by (cases s) (auto simp add: home_check_one_def endstop_is_triggered_def)

lemma body_quiet:
  assumes "home_waiting axes_mask tt s" and "list_all (\<lambda>level. \<forall>i. \<not> level i) samples"
  shows "home_waiting axes_mask tt (home_wait_body samples axes_mask s)"
proof -
  have c: "home_check_one axes_mask ENDSTOP_Z
          (home_check_one axes_mask ENDSTOP_Y (home_check_one axes_mask ENDSTOP_X s)) = s"
    using assms(1) by (simp add: check_one_quiet home_waiting_def)
  show ?thesis
    using assms(1) samples_quiet[OF assms(2), of s]
    by (auto simp add: home_wait_body_def c home_waiting_def)
qed

lemma home_wait_Some_not_waiting:
  assumes R: "home_wait polls axes_mask tt k s = Some r"
    and Q: "\<And>k. list_all (\<lambda>level. \<forall>i. \<not> level i) (polls k)"
  shows "\<not> home_waiting axes_mask tt s"
proof -
  let ?P = "\<lambda>(polls :: nat \<Rightarrow> (endstop_id \<Rightarrow> bool) list) (axes_mask :: 8 word) (tt :: real)
      (k :: nat) (s :: toolhead \<times> endstops) (y :: toolhead \<times> endstops).
      (\<forall>k. list_all (\<lambda>level. \<forall>i. \<not> level i) (polls k)) \<longrightarrow> \<not> home_waiting axes_mask tt s"
  have "?P polls axes_mask tt k s r"
  proof (rule home_wait.raw_induct[where P = ?P, OF _ R])
    fix hw polls axes_mask tt k s y
    assume IH: "\<And>polls axes_mask tt k s y. hw polls axes_mask tt k s = Some y \<Longrightarrow> ?P polls axes_mask tt k s y"
      and eq: "(if \<not> hc_triggered (s_home_ctx (fst s)) \<and> s_print_time (fst s) < tt
                then hw polls axes_mask tt (Suc k) (home_wait_body (polls k) axes_mask s)
                else Some s) = Some y"
    show "?P polls axes_mask tt k s y"
    proof (intro impI notI)
      assume q: "\<forall>k. list_all (\<lambda>level. \<forall>i. \<not> level i) (polls k)"
        and w: "home_waiting axes_mask tt s"
      from w have c: "\<not> hc_triggered (s_home_ctx (fst s)) \<and> s_print_time (fst s) < tt"
        by (simp add: home_waiting_def)
      with eq have "hw polls axes_mask tt (Suc k) (home_wait_body (polls k) axes_mask s) = Some y"
        by simp
      from IH[OF this] q
      have "\<not> home_waiting axes_mask tt (home_wait_body (polls k) axes_mask s)" by blast
      moreover have "home_waiting axes_mask tt (home_wait_body (polls k) axes_mask s)"
        using body_quiet[OF w] q by blast
      ultimately show False ..
    qed
  qed
  then show ?thesis using Q by blast
qed

lemma home_wait_never_returns:
  assumes "home_waiting axes_mask tt s"
    and "\<And>k. list_all (\<lambda>level. \<forall>i. \<not> level i) (polls k)"
  shows "home_wait polls axes_mask tt k s = None"
proof (cases "home_wait polls axes_mask tt k s")
  case None
  then show ?thesis .
next
  case (Some r)
  from home_wait_Some_not_waiting[OF Some assms(2)] assms(1) show ?thesis by blast
qed


lemma for_selected_home_start:
  "axis_selected axes_mask i \<Longrightarrow>
   \<not> es_triggered (for_selected axes_mask (\<lambda>i es. endstop_home_start i (endstop_set_callback i es)) es i)"
  by (cases i) (auto simp add: for_selected_def Let_def endstop_home_start_def endstop_set_callback_def)

lemma home_start_waiting:
  assumes "toolhead_home_start axes_mask s = (saved_min, s5)"
  shows "home_waiting axes_mask (s_print_time (fst s5) + HOMING_TIMEOUT) s5"
proof -
  obtain st0 es0 where s: "s = (st0, es0)" by (cases s)
  have t: "\<not> hc_triggered (s_home_ctx (fst s5))"
    using assms s
    by (auto simp add: toolhead_home_start_def Let_def flush_home_ctx toolhead_move_home_ctx)
  have e: "snd s5 = for_selected axes_mask (\<lambda>i es. endstop_home_start i (endstop_set_callback i es)) es0"
    using assms s by (auto simp add: toolhead_home_start_def Let_def)
  show ?thesis
    using t e for_selected_home_start[of axes_mask _ es0]
    by (simp add: home_waiting_def HOMING_TIMEOUT_def)
qed

lemma toolhead_home_untriggered:
  assumes "\<And>k. list_all (\<lambda>level. \<forall>i. \<not> level i) (polls k)"
  shows "toolhead_home polls axes_mask s = None"
proof -
  obtain saved_min s5 where h: "toolhead_home_start axes_mask s = (saved_min, s5)"
    by (cases "toolhead_home_start axes_mask s")
  have "home_wait polls axes_mask (s_print_time (fst s5) + HOMING_TIMEOUT) 0 s5 = None"
    using home_wait_never_returns[OF home_start_waiting[OF h] assms] .
  then show ?thesis by (simp add: toolhead_home_def h)
qed

text \<open>
  Claim C4 (homing timeout: when the selected endstop never triggers, \<^verbatim>\<open>toolhead_home\<close>
  terminates after 30 s of print time, returns \<^verbatim>\<open>TOOLHEAD_ERR_HOMING\<close> and clears homing
  mode). The waiting loop compares \<^verbatim>\<open>s_print_time\<close> with the timeout, and nothing in
  the loop advances \<^verbatim>\<open>s_print_time\<close>. With configured endstops whose switches stay
  open, homing X does not return, and neither does the \<^verbatim>\<open>G28 X\<close> that calls it.
\<close>

theorem homing_without_trigger_never_returns:
  "toolhead_home (hw_polls hw_idle) AXIS_X_MASK (toolhead_init toolhead_boot, endstops_configured) = None \<and>
   gcode_process hw_idle ''G28 X'' (machine_init\<lparr>mc_endstops := endstops_configured\<rparr>) = None"
proof -
  have q: "\<And>k. list_all (\<lambda>level. \<forall>i. \<not> level i) (hw_polls hw_idle k)"
    by (simp add: hw_idle_def)
  have p: "gcode_parse_line ''G28 X'' =
     (0, gcode_cmd_clear\<lparr>gc_cmd := CHR ''G'', gc_code := 28, gc_x := 0, has_x := True\<rparr>)"
    by (simp add: parse_eval)
  show ?thesis
    by (simp add: toolhead_home_untriggered[OF q] gcode_process_def p gcode_execute_def
        execute_g28_def gcode_cmd_clear_def GCODE_OK_def Let_def)
qed


end
